theory Spec2Isabelle
  imports Complex_Main
begin

section \<open>Python values used by app.py\<close>

text \<open>
  A Python \<open>str\<close> is a sequence of Unicode code points; the literals of app.py are mostly
  Japanese, so a string is modelled as the list of its code points. ASCII literals are
  written through \<open>ascii\<close>.
\<close>

type_synonym pystr = "nat list"

definition ascii :: "string \<Rightarrow> pystr" where
  "ascii s = map of_char s"

text \<open>
  The values a provider can put into \<open>response_metadata\<close>: a dictionary is an association
  list (insertion order, distinct keys in a well-formed dict).
\<close>

datatype pyval =
    PyNone
  | PyInt int
  | PyStr pystr
  | PyDict "(pystr \<times> pyval) list"

text \<open>
  Instances of Python's \<open>Exception\<close> class, which is what \<open>except Exception\<close> catches.
  \<open>ProviderError\<close> stands for whatever langchain or the OpenAI client raises (authentication
  failure, network error, ...), carrying its \<open>str(e)\<close>.
\<close>

datatype exn =
    KeyError pystr
  | AttributeError pystr pystr
  | TypeError pystr
  | ValueError pystr
  | ProviderError pystr

fun type_name :: "pyval \<Rightarrow> pystr" where
  "type_name PyNone = ascii ''NoneType''"
| "type_name (PyInt _) = ascii ''int''"
| "type_name (PyStr _) = ascii ''str''"
| "type_name (PyDict _) = ascii ''dict''"

text \<open>\<open>d.get(k, dflt)\<close> on a dict, and \<open>d[k]\<close>, which raises \<open>KeyError\<close>.\<close>

definition dict_get :: "(pystr \<times> 'v) list \<Rightarrow> pystr \<Rightarrow> 'v \<Rightarrow> 'v" where
  "dict_get d k dflt = (case map_of d k of Some v \<Rightarrow> v | None \<Rightarrow> dflt)"

definition dict_getitem :: "(pystr \<times> 'v) list \<Rightarrow> pystr \<Rightarrow> exn + 'v" where
  "dict_getitem d k = (case map_of d k of Some v \<Rightarrow> Inr v | None \<Rightarrow> Inl (KeyError k))"

text \<open>
  \<open>v.get(k, dflt)\<close> on an arbitrary value: only a dict has the method, anything else
  raises \<open>AttributeError\<close>.
\<close>

fun py_get :: "pyval \<Rightarrow> pystr \<Rightarrow> pyval \<Rightarrow> exn + pyval" where
  "py_get (PyDict d) k dflt = Inr (dict_get d k dflt)"
| "py_get v k dflt = Inl (AttributeError (type_name v) (ascii ''get''))"

text \<open>
  \<open>str.isspace\<close> of CPython on one code point, and \<open>str.strip()\<close>, which removes the
  leading and the trailing whitespace.
\<close>

definition isspace :: "nat \<Rightarrow> bool" where
  "isspace c \<longleftrightarrow>
     (9 \<le> c \<and> c \<le> 13) \<or> (28 \<le> c \<and> c \<le> 32) \<or> c = 133 \<or> c = 160 \<or> c = 5760 \<or>
     (8192 \<le> c \<and> c \<le> 8202) \<or> c = 8232 \<or> c = 8233 \<or> c = 8239 \<or> c = 8287 \<or> c = 12288"

definition strip :: "pystr \<Rightarrow> pystr" where
  "strip s = rev (dropWhile isspace (rev (dropWhile isspace s)))"

text \<open>Truth value of \<open>None\<close>-or-string, as tested by \<open>not openai_api_key\<close>.\<close>

fun truthy :: "pystr option \<Rightarrow> bool" where
  "truthy None = False"
| "truthy (Some s) = (s \<noteq> [])"

text \<open>
  The format specification \<open>,\<close> of an f-string: decimal digits with a comma every three
  digits for an \<open>int\<close>; \<open>TypeError\<close> or \<open>ValueError\<close> for the other values.
\<close>

fun digits :: "nat \<Rightarrow> pystr" where
  "digits n = (if n < 10 then [48 + n] else digits (n div 10) @ [48 + n mod 10])"

declare digits.simps [simp del]

fun commas :: "pystr \<Rightarrow> pystr" where
  "commas (a # b # c # d # rest) = a # b # c # 44 # commas (d # rest)"
| "commas ds = ds"

definition format_int :: "int \<Rightarrow> pystr" where
  "format_int n = (if n < 0 then [45] else []) @ rev (commas (rev (digits (nat \<bar>n\<bar>))))"

fun format_comma :: "pyval \<Rightarrow> exn + pystr" where
  "format_comma (PyInt n) = Inr (format_int n)"
| "format_comma (PyStr s) = Inl (ValueError (ascii ''Cannot specify '' @ [39, 44, 39] @ ascii '' with '' @ [39, 115, 39] @ ascii ''.''))"
| "format_comma v =
     Inl (TypeError (ascii ''unsupported format string passed to '' @ type_name v @ ascii ''.__format__''))"

text \<open>
  \<open>repr\<close> of a \<open>str\<close> in CPython: single quotes, unless the string holds a single quote
  and no double quote; the quote in use and the backslash are escaped, as are tab, newline
  and carriage return, and every code point that \<open>str.isprintable\<close> rejects is written
  as a hexadecimal escape of two, four or eight digits. The table lists, in increasing
  order, the ranges of code points that are not printable (CPython 3.11, Unicode 14.0).
\<close>

definition nonprintable :: "(nat \<times> nat) list" where
  "nonprintable = [(0, 31), (127, 160), (173, 173), (888, 889), (896, 899), (907, 907),
     (909, 909), (930, 930), (1328, 1328), (1367, 1368), (1419, 1420), (1424, 1424), (1480,
     1487), (1515, 1518), (1525, 1541), (1564, 1564), (1757, 1757), (1806, 1807), (1867,
     1868), (1970, 1983), (2043, 2044), (2094, 2095), (2111, 2111), (2140, 2141), (2143,
     2143), (2155, 2159), (2191, 2199), (2274, 2274), (2436, 2436), (2445, 2446), (2449,
     2450), (2473, 2473), (2481, 2481), (2483, 2485), (2490, 2491), (2501, 2502), (2505,
     2506), (2511, 2518), (2520, 2523), (2526, 2526), (2532, 2533), (2559, 2560), (2564,
     2564), (2571, 2574), (2577, 2578), (2601, 2601), (2609, 2609), (2612, 2612), (2615,
     2615), (2618, 2619), (2621, 2621), (2627, 2630), (2633, 2634), (2638, 2640), (2642,
     2648), (2653, 2653), (2655, 2661), (2679, 2688), (2692, 2692), (2702, 2702), (2706,
     2706), (2729, 2729), (2737, 2737), (2740, 2740), (2746, 2747), (2758, 2758), (2762,
     2762), (2766, 2767), (2769, 2783), (2788, 2789), (2802, 2808), (2816, 2816), (2820,
     2820), (2829, 2830), (2833, 2834), (2857, 2857), (2865, 2865), (2868, 2868), (2874,
     2875), (2885, 2886), (2889, 2890), (2894, 2900), (2904, 2907), (2910, 2910), (2916,
     2917), (2936, 2945), (2948, 2948), (2955, 2957), (2961, 2961), (2966, 2968), (2971,
     2971), (2973, 2973), (2976, 2978), (2981, 2983), (2987, 2989), (3002, 3005), (3011,
     3013), (3017, 3017), (3022, 3023), (3025, 3030), (3032, 3045), (3067, 3071), (3085,
     3085), (3089, 3089), (3113, 3113), (3130, 3131), (3141, 3141), (3145, 3145), (3150,
     3156), (3159, 3159), (3163, 3164), (3166, 3167), (3172, 3173), (3184, 3190), (3213,
     3213), (3217, 3217), (3241, 3241), (3252, 3252), (3258, 3259), (3269, 3269), (3273,
     3273), (3278, 3284), (3287, 3292), (3295, 3295), (3300, 3301), (3312, 3312), (3315,
     3327), (3341, 3341), (3345, 3345), (3397, 3397), (3401, 3401), (3408, 3411), (3428,
     3429), (3456, 3456), (3460, 3460), (3479, 3481), (3506, 3506), (3516, 3516), (3518,
     3519), (3527, 3529), (3531, 3534), (3541, 3541), (3543, 3543), (3552, 3557), (3568,
     3569), (3573, 3584), (3643, 3646), (3676, 3712), (3715, 3715), (3717, 3717), (3723,
     3723), (3748, 3748), (3750, 3750), (3774, 3775), (3781, 3781), (3783, 3783), (3790,
     3791), (3802, 3803), (3808, 3839), (3912, 3912), (3949, 3952), (3992, 3992), (4029,
     4029), (4045, 4045), (4059, 4095), (4294, 4294), (4296, 4300), (4302, 4303), (4681,
     4681), (4686, 4687), (4695, 4695), (4697, 4697), (4702, 4703), (4745, 4745), (4750,
     4751), (4785, 4785), (4790, 4791), (4799, 4799), (4801, 4801), (4806, 4807), (4823,
     4823), (4881, 4881), (4886, 4887), (4955, 4956), (4989, 4991), (5018, 5023), (5110,
     5111), (5118, 5119), (5760, 5760), (5789, 5791), (5881, 5887), (5910, 5918), (5943,
     5951), (5972, 5983), (5997, 5997), (6001, 6001), (6004, 6015), (6110, 6111), (6122,
     6127), (6138, 6143), (6158, 6158), (6170, 6175), (6265, 6271), (6315, 6319), (6390,
     6399), (6431, 6431), (6444, 6447), (6460, 6463), (6465, 6467), (6510, 6511), (6517,
     6527), (6572, 6575), (6602, 6607), (6619, 6621), (6684, 6685), (6751, 6751), (6781,
     6782), (6794, 6799), (6810, 6815), (6830, 6831), (6863, 6911), (6989, 6991), (7039,
     7039), (7156, 7163), (7224, 7226), (7242, 7244), (7305, 7311), (7355, 7356), (7368,
     7375), (7419, 7423), (7958, 7959), (7966, 7967), (8006, 8007), (8014, 8015), (8024,
     8024), (8026, 8026), (8028, 8028), (8030, 8030), (8062, 8063), (8117, 8117), (8133,
     8133), (8148, 8149), (8156, 8156), (8176, 8177), (8181, 8181), (8191, 8207), (8232,
     8239), (8287, 8303), (8306, 8307), (8335, 8335), (8349, 8351), (8385, 8399), (8433,
     8447), (8588, 8591), (9255, 9279), (9291, 9311), (11124, 11125), (11158, 11158),
     (11508, 11512), (11558, 11558), (11560, 11564), (11566, 11567), (11624, 11630), (11633,
     11646), (11671, 11679), (11687, 11687), (11695, 11695), (11703, 11703), (11711, 11711),
     (11719, 11719), (11727, 11727), (11735, 11735), (11743, 11743), (11870, 11903), (11930,
     11930), (12020, 12031), (12246, 12271), (12284, 12288), (12352, 12352), (12439, 12440),
     (12544, 12548), (12592, 12592), (12687, 12687), (12772, 12783), (12831, 12831), (42125,
     42127), (42183, 42191), (42540, 42559), (42744, 42751), (42955, 42959), (42962, 42962),
     (42964, 42964), (42970, 42993), (43053, 43055), (43066, 43071), (43128, 43135), (43206,
     43213), (43226, 43231), (43348, 43358), (43389, 43391), (43470, 43470), (43482, 43485),
     (43519, 43519), (43575, 43583), (43598, 43599), (43610, 43611), (43715, 43738), (43767,
     43776), (43783, 43784), (43791, 43792), (43799, 43807), (43815, 43815), (43823, 43823),
     (43884, 43887), (44014, 44015), (44026, 44031), (55204, 55215), (55239, 55242), (55292,
     63743), (64110, 64111), (64218, 64255), (64263, 64274), (64280, 64284), (64311, 64311),
     (64317, 64317), (64319, 64319), (64322, 64322), (64325, 64325), (64451, 64466), (64912,
     64913), (64968, 64974), (64976, 65007), (65050, 65055), (65107, 65107), (65127, 65127),
     (65132, 65135), (65141, 65141), (65277, 65280), (65471, 65473), (65480, 65481), (65488,
     65489), (65496, 65497), (65501, 65503), (65511, 65511), (65519, 65531), (65534, 65535),
     (65548, 65548), (65575, 65575), (65595, 65595), (65598, 65598), (65614, 65615), (65630,
     65663), (65787, 65791), (65795, 65798), (65844, 65846), (65935, 65935), (65949, 65951),
     (65953, 65999), (66046, 66175), (66205, 66207), (66257, 66271), (66300, 66303), (66340,
     66348), (66379, 66383), (66427, 66431), (66462, 66462), (66500, 66503), (66518, 66559),
     (66718, 66719), (66730, 66735), (66772, 66775), (66812, 66815), (66856, 66863), (66916,
     66926), (66939, 66939), (66955, 66955), (66963, 66963), (66966, 66966), (66978, 66978),
     (66994, 66994), (67002, 67002), (67005, 67071), (67383, 67391), (67414, 67423), (67432,
     67455), (67462, 67462), (67505, 67505), (67515, 67583), (67590, 67591), (67593, 67593),
     (67638, 67638), (67641, 67643), (67645, 67646), (67670, 67670), (67743, 67750), (67760,
     67807), (67827, 67827), (67830, 67834), (67868, 67870), (67898, 67902), (67904, 67967),
     (68024, 68027), (68048, 68049), (68100, 68100), (68103, 68107), (68116, 68116), (68120,
     68120), (68150, 68151), (68155, 68158), (68169, 68175), (68185, 68191), (68256, 68287),
     (68327, 68330), (68343, 68351), (68406, 68408), (68438, 68439), (68467, 68471), (68498,
     68504), (68509, 68520), (68528, 68607), (68681, 68735), (68787, 68799), (68851, 68857),
     (68904, 68911), (68922, 69215), (69247, 69247), (69290, 69290), (69294, 69295), (69298,
     69375), (69416, 69423), (69466, 69487), (69514, 69551), (69580, 69599), (69623, 69631),
     (69710, 69713), (69750, 69758), (69821, 69821), (69827, 69839), (69865, 69871), (69882,
     69887), (69941, 69941), (69960, 69967), (70007, 70015), (70112, 70112), (70133, 70143),
     (70162, 70162), (70207, 70271), (70279, 70279), (70281, 70281), (70286, 70286), (70302,
     70302), (70314, 70319), (70379, 70383), (70394, 70399), (70404, 70404), (70413, 70414),
     (70417, 70418), (70441, 70441), (70449, 70449), (70452, 70452), (70458, 70458), (70469,
     70470), (70473, 70474), (70478, 70479), (70481, 70486), (70488, 70492), (70500, 70501),
     (70509, 70511), (70517, 70655), (70748, 70748), (70754, 70783), (70856, 70863), (70874,
     71039), (71094, 71095), (71134, 71167), (71237, 71247), (71258, 71263), (71277, 71295),
     (71354, 71359), (71370, 71423), (71451, 71452), (71468, 71471), (71495, 71679), (71740,
     71839), (71923, 71934), (71943, 71944), (71946, 71947), (71956, 71956), (71959, 71959),
     (71990, 71990), (71993, 71994), (72007, 72015), (72026, 72095), (72104, 72105), (72152,
     72153), (72165, 72191), (72264, 72271), (72355, 72367), (72441, 72703), (72713, 72713),
     (72759, 72759), (72774, 72783), (72813, 72815), (72848, 72849), (72872, 72872), (72887,
     72959), (72967, 72967), (72970, 72970), (73015, 73017), (73019, 73019), (73022, 73022),
     (73032, 73039), (73050, 73055), (73062, 73062), (73065, 73065), (73103, 73103), (73106,
     73106), (73113, 73119), (73130, 73439), (73465, 73647), (73649, 73663), (73714, 73726),
     (74650, 74751), (74863, 74863), (74869, 74879), (75076, 77711), (77811, 77823), (78895,
     82943), (83527, 92159), (92729, 92735), (92767, 92767), (92778, 92781), (92863, 92863),
     (92874, 92879), (92910, 92911), (92918, 92927), (92998, 93007), (93018, 93018), (93026,
     93026), (93048, 93052), (93072, 93759), (93851, 93951), (94027, 94030), (94088, 94094),
     (94112, 94175), (94181, 94191), (94194, 94207), (100344, 100351), (101590, 101631),
     (101641, 110575), (110580, 110580), (110588, 110588), (110591, 110591), (110883,
     110927), (110931, 110947), (110952, 110959), (111356, 113663), (113771, 113775),
     (113789, 113791), (113801, 113807), (113818, 113819), (113824, 118527), (118574,
     118575), (118599, 118607), (118724, 118783), (119030, 119039), (119079, 119080),
     (119155, 119162), (119275, 119295), (119366, 119519), (119540, 119551), (119639,
     119647), (119673, 119807), (119893, 119893), (119965, 119965), (119968, 119969),
     (119971, 119972), (119975, 119976), (119981, 119981), (119994, 119994), (119996,
     119996), (120004, 120004), (120070, 120070), (120075, 120076), (120085, 120085),
     (120093, 120093), (120122, 120122), (120127, 120127), (120133, 120133), (120135,
     120137), (120145, 120145), (120486, 120487), (120780, 120781), (121484, 121498),
     (121504, 121504), (121520, 122623), (122655, 122879), (122887, 122887), (122905,
     122906), (122914, 122914), (122917, 122917), (122923, 123135), (123181, 123183),
     (123198, 123199), (123210, 123213), (123216, 123535), (123567, 123583), (123642,
     123646), (123648, 124895), (124903, 124903), (124908, 124908), (124911, 124911),
     (124927, 124927), (125125, 125126), (125143, 125183), (125260, 125263), (125274,
     125277), (125280, 126064), (126133, 126208), (126270, 126463), (126468, 126468),
     (126496, 126496), (126499, 126499), (126501, 126502), (126504, 126504), (126515,
     126515), (126520, 126520), (126522, 126522), (126524, 126529), (126531, 126534),
     (126536, 126536), (126538, 126538), (126540, 126540), (126544, 126544), (126547,
     126547), (126549, 126550), (126552, 126552), (126554, 126554), (126556, 126556),
     (126558, 126558), (126560, 126560), (126563, 126563), (126565, 126566), (126571,
     126571), (126579, 126579), (126584, 126584), (126589, 126589), (126591, 126591),
     (126602, 126602), (126620, 126624), (126628, 126628), (126634, 126634), (126652,
     126703), (126706, 126975), (127020, 127023), (127124, 127135), (127151, 127152),
     (127168, 127168), (127184, 127184), (127222, 127231), (127406, 127461), (127491,
     127503), (127548, 127551), (127561, 127567), (127570, 127583), (127590, 127743),
     (128728, 128732), (128749, 128751), (128765, 128767), (128884, 128895), (128985,
     128991), (129004, 129007), (129009, 129023), (129036, 129039), (129096, 129103),
     (129114, 129119), (129160, 129167), (129198, 129199), (129202, 129279), (129620,
     129631), (129646, 129647), (129653, 129655), (129661, 129663), (129671, 129679),
     (129709, 129711), (129723, 129727), (129734, 129743), (129754, 129759), (129768,
     129775), (129783, 129791), (129939, 129939), (129995, 130031), (130042, 131071),
     (173792, 173823), (177977, 177983), (178206, 178207), (183970, 183983), (191457,
     194559), (195102, 196607), (201547, 917759), (918000, 1114111)]"

fun in_ranges :: "nat \<Rightarrow> (nat \<times> nat) list \<Rightarrow> bool" where
  "in_ranges c [] = False"
| "in_ranges c ((lo, hi) # rs) = (if c < lo then False else if c \<le> hi then True else in_ranges c rs)"

definition isprintable :: "nat \<Rightarrow> bool" where
  "isprintable c = (\<not> in_ranges c nonprintable)"

definition hex_digit :: "nat \<Rightarrow> nat" where
  "hex_digit d = (if d < 10 then 48 + d else 87 + d)"

definition hex2 :: "nat \<Rightarrow> pystr" where
  "hex2 c = [hex_digit (c div 16 mod 16), hex_digit (c mod 16)]"

definition hex4 :: "nat \<Rightarrow> pystr" where
  "hex4 c = hex2 (c div 256) @ hex2 (c mod 256)"

definition hex8 :: "nat \<Rightarrow> pystr" where
  "hex8 c = hex4 (c div 65536) @ hex4 (c mod 65536)"

definition repr_char :: "nat \<Rightarrow> nat \<Rightarrow> pystr" where
  "repr_char quote c =
     (if c = quote \<or> c = 92 then [92, c]
      else if c = 9 then [92, 116]
      else if c = 10 then [92, 110]
      else if c = 13 then [92, 114]
      else if c < 32 \<or> c = 127 then [92, 120] @ hex2 c
      else if c < 127 then [c]
      else if isprintable c then [c]
      else if c \<le> 255 then [92, 120] @ hex2 c
      else if c \<le> 65535 then [92, 117] @ hex4 c
      else [92, 85] @ hex8 c)"

definition repr_str :: "pystr \<Rightarrow> pystr" where
  "repr_str s =
     (let quote = (if 39 \<in> set s \<and> 34 \<notin> set s then 34 else 39)
      in [quote] @ concat (map (repr_char quote) s) @ [quote])"

section \<open>String literals of app.py\<close>

definition label_medical :: pystr where \<comment> \<open>line 15, key: 'medical expert'\<close>
  "label_medical = [21307, 30274, 23554, 38272, 23478]"

definition instruction_medical :: pystr where \<comment> \<open>line 15, value\<close>
  "instruction_medical = [12354, 12394, 12383, 12399, 32076, 39443, 35914, 23500, 12394,
     21307, 30274, 23554, 38272, 23478, 12391, 12377, 12290, 21307, 23398, 30340, 12394,
     30693, 35672, 12395, 22522, 12389, 12356, 12390, 12289, 27491, 30906, 12391, 20998,
     12363, 12426, 12420, 12377, 12356, 22238, 31572, 12434, 25552, 20379, 12375, 12390,
     12367, 12384, 12373, 12356, 12290]"

definition label_legal :: pystr where \<comment> \<open>line 16, key: 'legal expert'\<close>
  "label_legal = [27861, 24459, 23554, 38272, 23478]"

definition instruction_legal :: pystr where \<comment> \<open>line 16, value\<close>
  "instruction_legal = [12354, 12394, 12383, 12399, 27861, 24459, 12398, 23554, 38272,
     23478, 12391, 12377, 12290, 27861, 30340, 12394, 35251, 28857, 12363, 12425, 27491,
     30906, 12391, 35443, 32048, 12394, 24773, 22577, 12434, 25552, 20379, 12375, 12390,
     12367, 12384, 12373, 12356, 12290]"

definition label_finance :: pystr where \<comment> \<open>line 17, key: 'finance expert'\<close>
  "label_finance = [37329, 34701, 23554, 38272, 23478]"

definition instruction_finance :: pystr where \<comment> \<open>line 17, value\<close>
  "instruction_finance = [12354, 12394, 12383, 12399, 37329, 34701, 12539, 25237, 36039,
     12398, 23554, 38272, 23478, 12391, 12377, 12290, 37329, 34701, 24066, 22580, 12420,
     25237, 36039, 25126, 30053, 12395, 12388, 12356, 12390, 23554, 38272, 30340, 12394,
     12450, 12489, 12496, 12452, 12473, 12434, 25552, 20379, 12375, 12390, 12367, 12384,
     12373, 12356, 12290]"

definition label_it_engineer :: pystr where \<comment> \<open>line 18, key: 'IT engineer'\<close>
  "label_it_engineer = [73, 84, 12456, 12531, 12472, 12491, 12450]"

definition instruction_it_engineer :: pystr where \<comment> \<open>line 18, value\<close>
  "instruction_it_engineer = [12354, 12394, 12383, 12399, 32076, 39443, 35914, 23500, 12394,
     73, 84, 12456, 12531, 12472, 12491, 12450, 12391, 12377, 12290, 25216, 34899, 30340,
     12394, 21839, 38988, 12395, 23550, 12375, 12390, 23455, 36341, 30340, 12394, 35299,
     27770, 31574, 12434, 25552, 20379, 12375, 12390, 12367, 12384, 12373, 12356, 12290]"

definition label_marketing :: pystr where \<comment> \<open>line 19, key: 'marketing expert'\<close>
  "label_marketing = [12510, 12540, 12465, 12486, 12451, 12531, 12464, 23554, 38272, 23478]"

definition instruction_marketing :: pystr where \<comment> \<open>line 19, value\<close>
  "instruction_marketing = [12354, 12394, 12383, 12399, 12510, 12540, 12465, 12486, 12451,
     12531, 12464, 12398, 23554, 38272, 23478, 12391, 12377, 12290, 21177, 26524, 30340,
     12394, 12510, 12540, 12465, 12486, 12451, 12531, 12464, 25126, 30053, 12420, 12499,
     12472, 12493, 12473, 25104, 38263, 12398, 12383, 12417, 12398, 12450, 12489, 12496,
     12452, 12473, 12434, 25552, 20379, 12375, 12390, 12367, 12384, 12373, 12356, 12290]"

definition error_prefix :: pystr where \<comment> \<open>line 60, the literal part of the f-string: 'An error occurred: '\<close>
  "error_prefix = [12456, 12521, 12540, 12364, 30330, 29983, 12375, 12414, 12375, 12383, 58,
     32]"

definition page_title_text :: pystr where \<comment> \<open>line 67\<close>
  "page_title_text = [65, 73, 23554, 38272, 23478, 30456, 35527, 12450, 12503, 12522]"

definition page_icon_text :: pystr where \<comment> \<open>line 68\<close>
  "page_icon_text = [129302]"

definition title_text :: pystr where \<comment> \<open>line 73\<close>
  "title_text = [129302, 32, 65, 73, 23554, 38272, 23478, 30456, 35527, 12450, 12503, 12522]"

definition overview_text :: pystr where \<comment> \<open>lines 76-87\<close>
  "overview_text = [10, 32, 32, 32, 32, 35, 35, 35, 32, 128214, 32, 12450, 12503, 12522,
     12398, 27010, 35201, 10, 32, 32, 32, 32, 12371, 12398, 12450, 12503, 12522, 12399,
     12289, 27096, 12293, 12394, 20998, 37326, 12398, 23554, 38272, 23478, 12392, 12375,
     12390, 65, 73, 12395, 30456, 35527, 12391, 12365, 12427, 12469, 12540, 12499, 12473,
     12391, 12377, 12290, 10, 32, 32, 32, 32, 36074, 21839, 12375, 12383, 12356, 20998,
     37326, 12398, 23554, 38272, 23478, 12434, 36984, 25246, 12375, 12390, 12289, 36074,
     21839, 12434, 20837, 21147, 12375, 12390, 12367, 12384, 12373, 12356, 12290, 10, 32,
     32, 32, 32, 10, 32, 32, 32, 32, 35, 35, 35, 32, 128295, 32, 20351, 12356, 26041, 10,
     32, 32, 32, 32, 49, 46, 32, 12521, 12472, 12458, 12508, 12479, 12531, 12363, 12425,
     30456, 35527, 12375, 12383, 12356, 23554, 38272, 23478, 12398, 31278, 39006, 12434,
     36984, 25246, 12375, 12390, 12367, 12384, 12373, 12356, 10, 32, 32, 32, 32, 50, 46, 32,
     12486, 12461, 12473, 12488, 12508, 12483, 12463, 12473, 12395, 36074, 21839, 12420,
     30456, 35527, 20869, 23481, 12434, 20837, 21147, 12375, 12390, 12367, 12384, 12373,
     12356, 10, 32, 32, 32, 32, 51, 46, 32, 12300, 36865, 20449, 12301, 12508, 12479, 12531,
     12434, 12463, 12522, 12483, 12463, 12377, 12427, 12392, 12289, 65, 73, 12364, 23554,
     38272, 23478, 12392, 12375, 12390, 22238, 31572, 12375, 12414, 12377, 10, 32, 32, 32,
     32, 10, 32, 32, 32, 32, 45, 45, 45, 10, 32, 32, 32, 32]"

definition sidebar_header_text :: pystr where \<comment> \<open>line 90\<close>
  "sidebar_header_text = [23554, 38272, 23478, 12434, 36984, 25246]"

definition radio_label :: pystr where \<comment> \<open>line 92\<close>
  "radio_label = [30456, 35527, 12375, 12383, 12356, 23554, 38272, 23478, 12398, 31278,
     39006, 58]"

definition selected_prefix :: pystr where \<comment> \<open>line 97, the literal part of the f-string\<close>
  "selected_prefix = [42, 42, 36984, 25246, 20013, 58, 42, 42, 32]"

definition subheader_prefix :: pystr where \<comment> \<open>line 101, the literal before {expert_type}\<close>
  "subheader_prefix = [128172, 32]"

definition subheader_suffix :: pystr where \<comment> \<open>line 101, the literal after {expert_type}\<close>
  "subheader_suffix = [12408, 12398, 30456, 35527]"

definition text_area_label :: pystr where \<comment> \<open>line 105\<close>
  "text_area_label = [36074, 21839, 12420, 30456, 35527, 20869, 23481, 12434, 20837, 21147,
     12375, 12390, 12367, 12384, 12373, 12356, 58]"

definition text_area_placeholder :: pystr where \<comment> \<open>line 107\<close>
  "text_area_placeholder = [12371, 12371, 12395, 36074, 21839, 12434, 20837, 21147, 12375,
     12390, 12367, 12384, 12373, 12356, 46, 46, 46]"

definition button_label :: pystr where \<comment> \<open>line 111: 'Send'\<close>
  "button_label = [36865, 20449]"

definition warning_text :: pystr where \<comment> \<open>line 113: 'Please enter a question.'\<close>
  "warning_text = [9888, 65039, 32, 36074, 21839, 12434, 20837, 21147, 12375, 12390, 12367,
     12384, 12373, 12356, 12290]"

definition error_text :: pystr where \<comment> \<open>line 115: 'The OpenAI API key is not set. Check the .env file.'\<close>
  "error_text = [10060, 32, 79, 112, 101, 110, 65, 73, 32, 65, 80, 73, 12461, 12540, 12364,
     35373, 23450, 12373, 12428, 12390, 12356, 12414, 12379, 12435, 12290, 46, 101, 110,
     118, 12501, 12449, 12452, 12523, 12434, 30906, 35469, 12375, 12390, 12367, 12384,
     12373, 12356, 12290]"

definition spinner_text :: pystr where \<comment> \<open>line 118\<close>
  "spinner_text = [22238, 31572, 12434, 29983, 25104, 20013, 46, 46, 46]"

definition success_text :: pystr where \<comment> \<open>line 123\<close>
  "success_text = [9989, 32, 22238, 31572, 12364, 29983, 25104, 12373, 12428, 12414, 12375,
     12383, 33]"

definition answer_heading :: pystr where \<comment> \<open>line 124\<close>
  "answer_heading = [35, 35, 35, 32, 128221, 32, 22238, 31572, 58]"

definition usage_heading :: pystr where \<comment> \<open>line 128\<close>
  "usage_heading = [35, 35, 35, 32, 128202, 32, 12488, 12540, 12463, 12531, 20351, 29992,
     37327, 58]"

definition metric_label_prompt :: pystr where \<comment> \<open>line 131\<close>
  "metric_label_prompt = [20837, 21147, 12488, 12540, 12463, 12531]"

definition metric_label_completion :: pystr where \<comment> \<open>line 133\<close>
  "metric_label_completion = [20986, 21147, 12488, 12540, 12463, 12531]"

definition metric_label_total :: pystr where \<comment> \<open>line 135\<close>
  "metric_label_total = [21512, 35336, 12488, 12540, 12463, 12531]"

definition info_prefix :: pystr where \<comment> \<open>line 138, the literal before {expert_type}\<close>
  "info_prefix = [128161, 32, 12371, 12398, 22238, 31572, 12399]"

definition info_suffix :: pystr where \<comment> \<open>line 138, the literal after {expert_type}\<close>
  "info_suffix = [12398, 35222, 28857, 12363, 12425, 25552, 20379, 12373, 12428, 12390, 12356, 12414, 12377, 12290]"

section \<open>The outside world\<close>

text \<open>
  The arguments of \<open>ChatOpenAI(...)\<close> (lines 36-40), the messages of langchain_core, and
  the part of the provider's answer that app.py reads: \<open>response.content\<close> and
  \<open>response.response_metadata\<close>. The float literal \<open>0.7\<close> is only passed on, never
  computed with, and is kept as the decimal fraction it is written as.
\<close>

record llm =
  model :: pystr
  temperature :: rat
  openai_api_key_arg :: "pystr option"

datatype message = SystemMessage pystr | HumanMessage pystr

record response =
  content :: pystr
  response_metadata :: "(pystr \<times> pyval) list"

text \<open>
  What is not code of app.py is a parameter: the environment read by \<open>os.getenv\<close> (after
  \<open>load_dotenv\<close>), \<open>repr\<close> on strings (used by \<open>str\<close> of a \<open>KeyError\<close>), the constructor of
  the client (\<open>None\<close> when it returns, \<open>Some e\<close> when it raises \<open>e\<close>) and the call
  \<open>llm.invoke(messages)\<close>.
\<close>

record ext =
  getenv :: "pystr \<Rightarrow> pystr option"
  py_repr :: "pystr \<Rightarrow> pystr"
  ChatOpenAI :: "llm \<Rightarrow> exn option"
  invoke :: "llm \<Rightarrow> message list \<Rightarrow> exn + response"

text \<open>\<open>str(e)\<close>.\<close>

fun str_exn :: "ext \<Rightarrow> exn \<Rightarrow> pystr" where
  "str_exn x (KeyError k) = py_repr x k"
| "str_exn x (AttributeError t a) =
     [39] @ t @ [39] @ ascii '' object has no attribute '' @ [39] @ a @ [39]"
| "str_exn x (TypeError m) = m"
| "str_exn x (ValueError m) = m"
| "str_exn x (ProviderError m) = m"

text \<open>The calls that leave the process, and the calls to the page toolkit, in order.\<close>

datatype call = Construct llm | Invoke llm "message list"

datatype st_event =
    SetPageConfig pystr pystr pystr
  | Title pystr
  | Markdown pystr
  | SidebarHeader pystr
  | SidebarRadio pystr "pystr list"
  | SidebarInfo pystr
  | SidebarWrite pystr
  | Subheader pystr
  | TextArea pystr nat pystr
  | Button pystr pystr
  | Warning pystr
  | Error pystr
  | Spinner pystr
  | Success pystr
  | Columns nat
  | Metric nat pystr pystr
  | Info pystr

section \<open>Module state\<close>

text \<open>
  The two module-level variables of app.py, the log of outbound calls and the page
  rendered so far. Every operation takes the state and returns it updated.
\<close>

record state =
  EXPERT_TYPES :: "(pystr \<times> pystr) list"
  openai_api_key :: "pystr option"
  calls :: "call list"
  page :: "st_event list"

text \<open>Lines 8-20: the module body.\<close>

definition module_init :: "ext \<Rightarrow> state" where
  "module_init x =
     \<lparr> EXPERT_TYPES =
         [(label_medical, instruction_medical),
          (label_legal, instruction_legal),
          (label_finance, instruction_finance),
          (label_it_engineer, instruction_it_engineer),
          (label_marketing, instruction_marketing)],
       openai_api_key = getenv x (ascii ''OPENAI_API_KEY''),
       calls = [],
       page = [] \<rparr>"

section \<open>get_llm_response\<close>

type_synonym result = "pystr \<times> pyval \<times> pyval \<times> pyval"

definition llm_args :: "state \<Rightarrow> llm" where
  "llm_args s = \<lparr> model = ascii ''gpt-4o-mini'', temperature = 0.7,
                  openai_api_key_arg = openai_api_key s \<rparr>"

definition external :: "call \<Rightarrow> state \<Rightarrow> state" where
  "external c s = s\<lparr>calls := calls s @ [c]\<rparr>"

text \<open>Lines 52-57: reading the usage metadata of a response.\<close>

definition read_usage :: "response \<Rightarrow> exn + result" where
  "read_usage r =
     (case py_get (PyDict (response_metadata r)) (ascii ''token_usage'') (PyDict []) of
        Inl e \<Rightarrow> Inl e
      | Inr token_usage \<Rightarrow>
     (case py_get token_usage (ascii ''prompt_tokens'') (PyInt 0) of
        Inl e \<Rightarrow> Inl e
      | Inr prompt_tokens \<Rightarrow>
     (case py_get token_usage (ascii ''completion_tokens'') (PyInt 0) of
        Inl e \<Rightarrow> Inl e
      | Inr completion_tokens \<Rightarrow>
     (case py_get token_usage (ascii ''total_tokens'') (PyInt 0) of
        Inl e \<Rightarrow> Inl e
      | Inr total_tokens \<Rightarrow>
          Inr (content r, prompt_tokens, completion_tokens, total_tokens)))))"

text \<open>Lines 35-57: the body of the \<open>try\<close>; \<open>Inl e\<close> when it raises \<open>e\<close>.\<close>

definition get_llm_response_try ::
    "ext \<Rightarrow> state \<Rightarrow> pystr \<Rightarrow> pystr \<Rightarrow> (exn + result) \<times> state" where
  "get_llm_response_try x s user_input expert_type =
     (let llm = llm_args s;
          s1 = external (Construct llm) s
      in case ChatOpenAI x llm of
           Some e \<Rightarrow> (Inl e, s1)
         | None \<Rightarrow>
        (case dict_getitem (EXPERT_TYPES s1) expert_type of
           Inl e \<Rightarrow> (Inl e, s1)
         | Inr instruction \<Rightarrow>
            (let messages = [SystemMessage instruction, HumanMessage user_input];
                 s2 = external (Invoke llm messages) s1
             in case invoke x llm messages of
                  Inl e \<Rightarrow> (Inl e, s2)
                | Inr response \<Rightarrow> (read_usage response, s2))))"

text \<open>Lines 34-60: \<open>try\<close> ... \<open>except Exception as e\<close>.\<close>

definition get_llm_response ::
    "ext \<Rightarrow> state \<Rightarrow> pystr \<Rightarrow> pystr \<Rightarrow> (exn + result) \<times> state" where
  "get_llm_response x s user_input expert_type =
     (case get_llm_response_try x s user_input expert_type of
        (Inr r, s') \<Rightarrow> (Inr r, s')
      | (Inl e, s') \<Rightarrow> (Inr (error_prefix @ str_exn x e, PyInt 0, PyInt 0, PyInt 0), s'))"

section \<open>main\<close>

text \<open>
  What the page toolkit hands back in one run of the script: the option selected in the
  radio group, the content of the text area, and whether the button was clicked.
\<close>

record ui =
  radio_value :: pystr
  text_area_value :: pystr
  button_value :: bool

definition st :: "st_event \<Rightarrow> state \<Rightarrow> state" where
  "st ev s = s\<lparr>page := page s @ [ev]\<rparr>"

text \<open>Lines 129-138: the three metrics and the closing note.\<close>

definition show_usage ::
    "pystr \<Rightarrow> pyval \<Rightarrow> pyval \<Rightarrow> pyval \<Rightarrow> state \<Rightarrow> (exn + unit) \<times> state" where
  "show_usage expert_type prompt_tokens completion_tokens total_tokens s =
     (let s1 = st (Columns 3) s
      in case format_comma prompt_tokens of
           Inl e \<Rightarrow> (Inl e, s1)
         | Inr f1 \<Rightarrow>
        (let s2 = st (Metric 1 metric_label_prompt f1) s1
         in case format_comma completion_tokens of
              Inl e \<Rightarrow> (Inl e, s2)
            | Inr f2 \<Rightarrow>
           (let s3 = st (Metric 2 metric_label_completion f2) s2
            in case format_comma total_tokens of
                 Inl e \<Rightarrow> (Inl e, s3)
               | Inr f3 \<Rightarrow>
              (let s4 = st (Metric 3 metric_label_total f3) s3
               in (Inr (), st (Info (info_prefix @ expert_type @ info_suffix)) s4)))))"

text \<open>Lines 116-138: the \<open>else\<close> branch of the submission.\<close>

definition respond :: "ext \<Rightarrow> pystr \<Rightarrow> pystr \<Rightarrow> state \<Rightarrow> (exn + unit) \<times> state" where
  "respond x user_input expert_type s =
     (let s1 = st (Spinner spinner_text) s
      in case get_llm_response x s1 user_input expert_type of
           (Inl e, s2) \<Rightarrow> (Inl e, s2)
         | (Inr (response, prompt_tokens, completion_tokens, total_tokens), s2) \<Rightarrow>
             (let s3 = st (Success success_text) s2;
                  s4 = st (Markdown answer_heading) s3;
                  s5 = st (Markdown response) s4;
                  s6 = st (Markdown usage_heading) s5
              in show_usage expert_type prompt_tokens completion_tokens total_tokens s6))"

text \<open>Lines 111-138: the submission.\<close>

definition submit :: "ext \<Rightarrow> pystr \<Rightarrow> pystr \<Rightarrow> state \<Rightarrow> (exn + unit) \<times> state" where
  "submit x user_input expert_type s =
     (if strip user_input = [] then (Inr (), st (Warning warning_text) s)
      else if \<not> truthy (openai_api_key s) then (Inr (), st (Error error_text) s)
      else respond x user_input expert_type s)"

text \<open>Lines 66-94: the page down to the radio group.\<close>

definition page_head :: "state \<Rightarrow> state" where
  "page_head s =
     (let s1 = st (SetPageConfig page_title_text page_icon_text (ascii ''wide'')) s;
          s2 = st (Title title_text) s1;
          s3 = st (Markdown overview_text) s2;
          s4 = st (SidebarHeader sidebar_header_text) s3
      in st (SidebarRadio radio_label (map fst (EXPERT_TYPES s4))) s4)"

text \<open>Lines 64-138.\<close>

definition main :: "ext \<Rightarrow> ui \<Rightarrow> state \<Rightarrow> (exn + unit) \<times> state" where
  "main x u s =
     (let s1 = page_head s;
          expert_type = radio_value u;
          s2 = st (SidebarInfo (selected_prefix @ expert_type)) s1
      in case dict_getitem (EXPERT_TYPES s2) expert_type of
           Inl e \<Rightarrow> (Inl e, s2)
         | Inr instruction \<Rightarrow>
             (let s3 = st (SidebarWrite instruction) s2;
                  s4 = st (Subheader (subheader_prefix @ expert_type @ subheader_suffix)) s3;
                  s5 = st (TextArea text_area_label 150 text_area_placeholder) s4;
                  user_input = text_area_value u;
                  s6 = st (Button button_label (ascii ''primary'')) s5
              in if button_value u then submit x user_input expert_type s6
                 else (Inr (), s6)))"


text \<open>The events a run of the script has added to the page.\<close>

definition rendered :: "state \<Rightarrow> state \<Rightarrow> st_event list" where
  "rendered s s' = drop (length (page s)) (page s')"

section \<open>Concrete providers\<close>

text \<open>
  Stand-ins for the outside world, on which the operations are evaluated: a provider
  that answers \<open>hello\<close> with usage 10 / 5 / 15, one whose network call fails, one that
  leaves \<open>total_tokens\<close> out of its usage metadata, one that answers with
  \<open>token_usage\<close> set to \<open>None\<close>, and a process with no credential, where the client
  constructor raises.
\<close>

definition env_with_key :: "pystr \<Rightarrow> pystr option" where
  "env_with_key k = (if k = ascii ''OPENAI_API_KEY'' then Some (ascii ''sk-test'') else None)"

definition env_empty :: "pystr \<Rightarrow> pystr option" where
  "env_empty k = None"

definition hello_response :: response where
  "hello_response =
     \<lparr> content = ascii ''hello'',
       response_metadata =
         [(ascii ''token_usage'',
           PyDict [(ascii ''prompt_tokens'', PyInt 10),
                   (ascii ''completion_tokens'', PyInt 5),
                   (ascii ''total_tokens'', PyInt 15)])] \<rparr>"

definition partial_response :: response where
  "partial_response =
     \<lparr> content = ascii ''hello'',
       response_metadata =
         [(ascii ''token_usage'',
           PyDict [(ascii ''prompt_tokens'', PyInt 10),
                   (ascii ''completion_tokens'', PyInt 5)])] \<rparr>"

definition null_usage_response :: response where
  "null_usage_response =
     \<lparr> content = ascii ''hello'',
       response_metadata = [(ascii ''token_usage'', PyNone)] \<rparr>"

definition always_constructs :: "llm \<Rightarrow> exn option" where
  "always_constructs a = None"

definition needs_key :: "llm \<Rightarrow> exn option" where
  "needs_key a =
     (if truthy (openai_api_key_arg a) then None
      else Some (ProviderError (ascii ''The api_key client option must be set'')))"

definition answers :: "response \<Rightarrow> llm \<Rightarrow> message list \<Rightarrow> exn + response" where
  "answers r a ms = Inr r"

definition fails :: "llm \<Rightarrow> message list \<Rightarrow> exn + response" where
  "fails a ms = Inl (ProviderError (ascii ''Connection error.''))"

definition provider_hello :: ext where
  "provider_hello = \<lparr> getenv = env_with_key, py_repr = repr_str,
                       ChatOpenAI = always_constructs, invoke = answers hello_response \<rparr>"

definition provider_down :: ext where
  "provider_down = \<lparr> getenv = env_with_key, py_repr = repr_str,
                      ChatOpenAI = always_constructs, invoke = fails \<rparr>"

definition provider_partial :: ext where
  "provider_partial = \<lparr> getenv = env_with_key, py_repr = repr_str,
                         ChatOpenAI = always_constructs, invoke = answers partial_response \<rparr>"

definition provider_null_usage :: ext where
  "provider_null_usage = \<lparr> getenv = env_with_key, py_repr = repr_str,
                            ChatOpenAI = always_constructs, invoke = answers null_usage_response \<rparr>"

definition provider_no_key :: ext where
  "provider_no_key = \<lparr> getenv = env_empty, py_repr = repr_str,
                        ChatOpenAI = needs_key, invoke = fails \<rparr>"


section \<open>Properties of get_llm_response\<close>

lemma try_constructor_raises:
  "ChatOpenAI x (llm_args s) = Some e \<Longrightarrow>
   get_llm_response_try x s u l = (Inl e, external (Construct (llm_args s)) s)"
  by (simp add: get_llm_response_try_def Let_def)

lemma try_unknown_label:
  "ChatOpenAI x (llm_args s) = None \<Longrightarrow> map_of (EXPERT_TYPES s) l = None \<Longrightarrow>
   get_llm_response_try x s u l = (Inl (KeyError l), external (Construct (llm_args s)) s)"
  by (simp add: get_llm_response_try_def Let_def dict_getitem_def external_def)

lemma try_invoke_raises:
  "ChatOpenAI x (llm_args s) = None \<Longrightarrow> map_of (EXPERT_TYPES s) l = Some i \<Longrightarrow>
   invoke x (llm_args s) [SystemMessage i, HumanMessage u] = Inl e \<Longrightarrow>
   get_llm_response_try x s u l =
     (Inl e, external (Invoke (llm_args s) [SystemMessage i, HumanMessage u])
               (external (Construct (llm_args s)) s))"
  by (simp add: get_llm_response_try_def Let_def dict_getitem_def external_def)

lemma try_invoke_returns:
  "ChatOpenAI x (llm_args s) = None \<Longrightarrow> map_of (EXPERT_TYPES s) l = Some i \<Longrightarrow>
   invoke x (llm_args s) [SystemMessage i, HumanMessage u] = Inr r \<Longrightarrow>
   get_llm_response_try x s u l =
     (read_usage r, external (Invoke (llm_args s) [SystemMessage i, HumanMessage u])
               (external (Construct (llm_args s)) s))"
  by (simp add: get_llm_response_try_def Let_def dict_getitem_def external_def)

lemma response_of_try:
  "get_llm_response x s u l =
     (case fst (get_llm_response_try x s u l) of
        Inr r \<Rightarrow> Inr r
      | Inl e \<Rightarrow> Inr (error_prefix @ str_exn x e, PyInt 0, PyInt 0, PyInt 0),
      snd (get_llm_response_try x s u l))"
  by (simp add: get_llm_response_def split: prod.splits sum.splits)

text \<open>
  C1. Whatever the input text and the persona label, an exception raised inside the
  \<open>try\<close> block, in particular by the client constructor or by the call to the provider,
  is caught: get_llm_response returns the twelve code points of the literal of line 60
  (\<open>An error occurred:\<close> in Japanese, a colon and a space) followed by \<open>str(e)\<close>, with
  the three counters 0, and it always returns a value, never an exception.
\<close>

theorem get_llm_response_catches:
  "(\<exists>r. fst (get_llm_response x s user_input expert_type) = Inr r) \<and>
   (fst (get_llm_response_try x s user_input expert_type) = Inl e \<longrightarrow>
      fst (get_llm_response x s user_input expert_type) =
        Inr ([12456, 12521, 12540, 12364, 30330, 29983, 12375, 12414, 12375, 12383, 58, 32] @ str_exn x e,
             PyInt 0, PyInt 0, PyInt 0)) \<and>
   (ChatOpenAI x (llm_args s) = Some e \<or>
    (ChatOpenAI x (llm_args s) = None \<and>
     (\<exists>i. map_of (EXPERT_TYPES s) expert_type = Some i \<and>
          invoke x (llm_args s) [SystemMessage i, HumanMessage user_input] = Inl e)) \<longrightarrow>
      fst (get_llm_response x s user_input expert_type) =
        Inr ([12456, 12521, 12540, 12364, 30330, 29983, 12375, 12414, 12375, 12383, 58, 32] @ str_exn x e,
             PyInt 0, PyInt 0, PyInt 0))"
proof (intro conjI impI)
  show "\<exists>r. fst (get_llm_response x s user_input expert_type) = Inr r"
    by (simp add: response_of_try split: sum.splits)
next
  assume "fst (get_llm_response_try x s user_input expert_type) = Inl e"
  then show "fst (get_llm_response x s user_input expert_type) =
      Inr ([12456, 12521, 12540, 12364, 30330, 29983, 12375, 12414, 12375, 12383, 58, 32] @ str_exn x e,
           PyInt 0, PyInt 0, PyInt 0)"
    by (simp add: response_of_try error_prefix_def)
next
  assume "ChatOpenAI x (llm_args s) = Some e \<or>
    (ChatOpenAI x (llm_args s) = None \<and>
     (\<exists>i. map_of (EXPERT_TYPES s) expert_type = Some i \<and>
          invoke x (llm_args s) [SystemMessage i, HumanMessage user_input] = Inl e))"
  then have "fst (get_llm_response_try x s user_input expert_type) = Inl e"
    by (auto simp: try_constructor_raises try_invoke_raises)
  then show "fst (get_llm_response x s user_input expert_type) =
      Inr ([12456, 12521, 12540, 12364, 30330, 29983, 12375, 12414, 12375, 12383, 58, 32] @ str_exn x e,
           PyInt 0, PyInt 0, PyInt 0)"
    by (simp add: response_of_try error_prefix_def)
qed

lemma registry_init:
  "map_of (EXPERT_TYPES (module_init x)) label_legal = Some instruction_legal"
  by (simp add: module_init_def label_medical_def label_legal_def)

text \<open>The provider whose network call fails, asked by the legal expert.\<close>

theorem get_llm_response_catches_witness:
  "ChatOpenAI provider_down (llm_args (module_init provider_down)) = None \<and>
   map_of (EXPERT_TYPES (module_init provider_down)) label_legal = Some instruction_legal \<and>
   invoke provider_down (llm_args (module_init provider_down))
     [SystemMessage instruction_legal, HumanMessage (ascii ''hi'')] =
       Inl (ProviderError (ascii ''Connection error.'')) \<and>
   fst (get_llm_response_try provider_down (module_init provider_down) (ascii ''hi'') label_legal) =
       Inl (ProviderError (ascii ''Connection error.'')) \<and>
   fst (get_llm_response provider_down (module_init provider_down) (ascii ''hi'') label_legal) =
       Inr ([12456, 12521, 12540, 12364, 30330, 29983, 12375, 12414, 12375, 12383, 58, 32] @
            ascii ''Connection error.'', PyInt 0, PyInt 0, PyInt 0)"
proof -
  let ?s = "module_init provider_down"
  let ?e = "ProviderError (ascii ''Connection error.'')"
  have c: "ChatOpenAI provider_down (llm_args ?s) = None"
    by (simp add: provider_down_def always_constructs_def)
  have r: "map_of (EXPERT_TYPES ?s) label_legal = Some instruction_legal"
    by (rule registry_init)
  have i: "invoke provider_down (llm_args ?s)
     [SystemMessage instruction_legal, HumanMessage (ascii ''hi'')] = Inl ?e"
    by (simp add: provider_down_def fails_def)
  have t: "fst (get_llm_response_try provider_down ?s (ascii ''hi'') label_legal) = Inl ?e"
    by (simp add: try_invoke_raises [OF c r i])
  from get_llm_response_catches [of provider_down ?s "ascii ''hi''" label_legal ?e] c r i t
  show ?thesis by simp
qed

lemma llm_args_eq:
  "llm_args s = \<lparr> model = ascii ''gpt-4o-mini'', temperature = 7 / 10,
                  openai_api_key_arg = openai_api_key s \<rparr>"
  by (simp add: llm_args_def)

lemma snd_response: "snd (get_llm_response x s u l) = snd (get_llm_response_try x s u l)"
  by (simp add: response_of_try)

text \<open>
  C2. For a label of the registry, and a client whose construction succeeds,
  get_llm_response makes exactly two outbound calls: it constructs the client with the
  model gpt-4o-mini and temperature 0.7, and invokes it on the two messages, first the
  system message with the persona's instruction, then the human message with the user's text.
\<close>

theorem get_llm_response_submits:
  assumes "map_of (EXPERT_TYPES s) expert_type = Some instruction"
    and "ChatOpenAI x \<lparr> model = ascii ''gpt-4o-mini'', temperature = 7 / 10,
                         openai_api_key_arg = openai_api_key s \<rparr> = None"
  shows "calls (snd (get_llm_response x s user_input expert_type)) =
     calls s @
       [Construct \<lparr> model = ascii ''gpt-4o-mini'', temperature = 7 / 10,
                    openai_api_key_arg = openai_api_key s \<rparr>,
        Invoke \<lparr> model = ascii ''gpt-4o-mini'', temperature = 7 / 10,
                 openai_api_key_arg = openai_api_key s \<rparr>
          [SystemMessage instruction, HumanMessage user_input]]"
proof -
  let ?a = "llm_args s"
  let ?ms = "[SystemMessage instruction, HumanMessage user_input]"
  from assms(2) have c: "ChatOpenAI x ?a = None" by (simp add: llm_args_eq)
  have "calls (snd (get_llm_response_try x s user_input expert_type)) =
      calls s @ [Construct ?a, Invoke ?a ?ms]"
  proof (cases "invoke x ?a ?ms")
    case (Inl e)
    from try_invoke_raises [OF c assms(1) Inl] show ?thesis by (simp add: external_def)
  next
    case (Inr r)
    from try_invoke_returns [OF c assms(1) Inr] show ?thesis by (simp add: external_def)
  qed
  then show ?thesis by (simp add: snd_response llm_args_eq)
qed

theorem get_llm_response_submits_witness:
  "map_of (EXPERT_TYPES (module_init provider_hello)) label_legal = Some instruction_legal \<and>
   calls (snd (get_llm_response provider_hello (module_init provider_hello) (ascii ''hi'') label_legal)) =
     [Construct \<lparr> model = ascii ''gpt-4o-mini'', temperature = 7 / 10,
                  openai_api_key_arg = Some (ascii ''sk-test'') \<rparr>,
      Invoke \<lparr> model = ascii ''gpt-4o-mini'', temperature = 7 / 10,
               openai_api_key_arg = Some (ascii ''sk-test'') \<rparr>
        [SystemMessage instruction_legal, HumanMessage (ascii ''hi'')]]"
proof -
  let ?s = "module_init provider_hello"
  have k: "openai_api_key ?s = Some (ascii ''sk-test'')"
    by (simp add: module_init_def provider_hello_def env_with_key_def)
  have e: "calls ?s = []" by (simp add: module_init_def)
  have r: "map_of (EXPERT_TYPES ?s) label_legal = Some instruction_legal"
    by (rule registry_init)
  have c: "ChatOpenAI provider_hello \<lparr> model = ascii ''gpt-4o-mini'', temperature = 7 / 10,
                         openai_api_key_arg = openai_api_key ?s \<rparr> = None"
    by (simp add: provider_hello_def always_constructs_def)
  from get_llm_response_submits [OF r c, of "ascii ''hi''"] r k e show ?thesis by simp
qed

lemma read_usage_dict:
  assumes "dict_get (response_metadata r) (ascii ''token_usage'') (PyDict []) = PyDict usage"
  shows "read_usage r =
     Inr (content r,
          dict_get usage (ascii ''prompt_tokens'') (PyInt 0),
          dict_get usage (ascii ''completion_tokens'') (PyInt 0),
          dict_get usage (ascii ''total_tokens'') (PyInt 0))"
  using assms by (simp add: read_usage_def)

text \<open>
  C3 as stated fails: not every response of the provider is passed on. A response that
  carries the reply \<open>hello\<close> and whose metadata holds \<open>token_usage\<close> with the value
  \<open>None\<close> makes line 53 raise \<open>AttributeError\<close> (the default of line 52 applies only to
  an absent key), and the handler returns the failure value in place of the reply.
\<close>

theorem every_response_counterexample:
  "invoke provider_null_usage (llm_args (module_init provider_null_usage))
      [SystemMessage instruction_legal, HumanMessage (ascii ''hi'')] = Inr null_usage_response \<and>
   content null_usage_response = ascii ''hello'' \<and>
   map_of (response_metadata null_usage_response) (ascii ''token_usage'') = Some PyNone \<and>
   fst (get_llm_response_try provider_null_usage (module_init provider_null_usage)
          (ascii ''hi'') label_legal) =
     Inl (AttributeError (ascii ''NoneType'') (ascii ''get'')) \<and>
   fst (get_llm_response provider_null_usage (module_init provider_null_usage)
          (ascii ''hi'') label_legal) =
     Inr ([12456, 12521, 12540, 12364, 30330, 29983, 12375, 12414, 12375, 12383, 58, 32] @
          [39] @ ascii ''NoneType'' @ [39] @ ascii '' object has no attribute '' @
          [39] @ ascii ''get'' @ [39],
          PyInt 0, PyInt 0, PyInt 0)"
proof -
  let ?s = "module_init provider_null_usage"
  have c: "ChatOpenAI provider_null_usage (llm_args ?s) = None"
    by (simp add: provider_null_usage_def always_constructs_def)
  have i: "invoke provider_null_usage (llm_args ?s)
      [SystemMessage instruction_legal, HumanMessage (ascii ''hi'')] = Inr null_usage_response"
    by (simp add: provider_null_usage_def answers_def)
  have u: "read_usage null_usage_response =
      Inl (AttributeError (ascii ''NoneType'') (ascii ''get''))"
    by (simp add: read_usage_def null_usage_response_def dict_get_def)
  have t: "fst (get_llm_response_try provider_null_usage ?s (ascii ''hi'') label_legal) =
      Inl (AttributeError (ascii ''NoneType'') (ascii ''get''))"
    by (simp add: try_invoke_returns [OF c registry_init i] u)
  have g: "fst (get_llm_response provider_null_usage ?s (ascii ''hi'') label_legal) =
     Inr ([12456, 12521, 12540, 12364, 30330, 29983, 12375, 12414, 12375, 12383, 58, 32] @
          [39] @ ascii ''NoneType'' @ [39] @ ascii '' object has no attribute '' @
          [39] @ ascii ''get'' @ [39],
          PyInt 0, PyInt 0, PyInt 0)"
    by (simp add: response_of_try t error_prefix_def)
  have m: "content null_usage_response = ascii ''hello''"
    "map_of (response_metadata null_usage_response) (ascii ''token_usage'') = Some PyNone"
    by (simp_all add: null_usage_response_def)
  from i m t g show ?thesis by (intro conjI)
qed

text \<open>
  C3, amended. When the client is constructed, the label is known and the provider
  returns a response whose metadata has no \<open>token_usage\<close> entry or has a dictionary there,
  get_llm_response returns the reply text of the response and, for each of the three
  counters, the value stored in the dictionary, unchanged, or 0 when the counter is missing.
\<close>

theorem get_llm_response_success:
  assumes "ChatOpenAI x (llm_args s) = None"
    and "map_of (EXPERT_TYPES s) expert_type = Some instruction"
    and "invoke x (llm_args s) [SystemMessage instruction, HumanMessage user_input] = Inr r"
    and "(case map_of (response_metadata r) (ascii ''token_usage'') of
            Some v \<Rightarrow> v | None \<Rightarrow> PyDict []) = PyDict usage"
  shows "fst (get_llm_response x s user_input expert_type) =
     Inr (content r,
          (case map_of usage (ascii ''prompt_tokens'') of Some v \<Rightarrow> v | None \<Rightarrow> PyInt 0),
          (case map_of usage (ascii ''completion_tokens'') of Some v \<Rightarrow> v | None \<Rightarrow> PyInt 0),
          (case map_of usage (ascii ''total_tokens'') of Some v \<Rightarrow> v | None \<Rightarrow> PyInt 0))"
proof -
  from assms(4)
  have "dict_get (response_metadata r) (ascii ''token_usage'') (PyDict []) = PyDict usage"
    by (simp add: dict_get_def)
  then have "read_usage r =
     Inr (content r,
          dict_get usage (ascii ''prompt_tokens'') (PyInt 0),
          dict_get usage (ascii ''completion_tokens'') (PyInt 0),
          dict_get usage (ascii ''total_tokens'') (PyInt 0))"
    by (rule read_usage_dict)
  with try_invoke_returns [OF assms(1,2,3)] show ?thesis
    by (simp add: response_of_try dict_get_def)
qed

lemma hello_setup:
  "ChatOpenAI provider_hello (llm_args (module_init provider_hello)) = None"
  "invoke provider_hello (llm_args (module_init provider_hello)) ms = Inr hello_response"
  by (simp_all add: provider_hello_def always_constructs_def answers_def)

theorem get_llm_response_success_witness:
  "invoke provider_hello (llm_args (module_init provider_hello))
      [SystemMessage instruction_legal, HumanMessage (ascii ''hi'')] = Inr hello_response \<and>
   fst (get_llm_response provider_hello (module_init provider_hello) (ascii ''hi'') label_legal) =
     Inr (ascii ''hello'', PyInt 10, PyInt 5, PyInt 15)"
proof -
  let ?s = "module_init provider_hello"
  let ?u = "[(ascii ''prompt_tokens'', PyInt 10), (ascii ''completion_tokens'', PyInt 5),
             (ascii ''total_tokens'', PyInt 15)]"
  have r: "map_of (EXPERT_TYPES ?s) label_legal = Some instruction_legal"
    by (rule registry_init)
  have m: "(case map_of (response_metadata hello_response) (ascii ''token_usage'') of
            Some v \<Rightarrow> v | None \<Rightarrow> PyDict []) = PyDict ?u"
    by (simp add: hello_response_def)
  have c: "content hello_response = ascii ''hello''" by (simp add: hello_response_def)
  from get_llm_response_success [OF hello_setup(1) r hello_setup(2) m] c hello_setup(2)
  show ?thesis by (simp add: ascii_def)
qed

lemma success_result:
  assumes "ChatOpenAI x (llm_args s) = None"
    and "map_of (EXPERT_TYPES s) l = Some i"
    and "invoke x (llm_args s) [SystemMessage i, HumanMessage u] = Inr r"
    and "dict_get (response_metadata r) (ascii ''token_usage'') (PyDict []) = PyDict usage"
  shows "fst (get_llm_response_try x s u l) =
     Inr (content r,
          dict_get usage (ascii ''prompt_tokens'') (PyInt 0),
          dict_get usage (ascii ''completion_tokens'') (PyInt 0),
          dict_get usage (ascii ''total_tokens'') (PyInt 0))"
  using try_invoke_returns [OF assms(1,2,3)] read_usage_dict [OF assms(4)] by simp

lemma partial_setup:
  "ChatOpenAI provider_partial (llm_args (module_init provider_partial)) = None"
  "invoke provider_partial (llm_args (module_init provider_partial)) ms = Inr partial_response"
  by (simp_all add: provider_partial_def always_constructs_def answers_def)

lemma partial_try:
  "fst (get_llm_response_try provider_partial (module_init provider_partial) (ascii ''hi'') label_legal) =
     Inr (ascii ''hello'', PyInt 10, PyInt 5, PyInt 0)"
proof -
  let ?u = "[(ascii ''prompt_tokens'', PyInt 10), (ascii ''completion_tokens'', PyInt 5)]"
  have m: "dict_get (response_metadata partial_response) (ascii ''token_usage'') (PyDict []) =
      PyDict ?u"
    by (simp add: partial_response_def dict_get_def)
  have c: "content partial_response = ascii ''hello''" by (simp add: partial_response_def)
  from success_result [OF partial_setup(1) registry_init partial_setup(2) m] c
  show ?thesis by (simp add: dict_get_def ascii_def)
qed

text \<open>
  C6 as stated fails: get_llm_response copies the counters and defaults each missing one
  to 0 on its own. A provider that reports 10 prompt tokens and 5 completion tokens and
  leaves \<open>total_tokens\<close> out gives a successful result with the total 0.
\<close>

theorem total_is_sum_counterexample:
  "fst (get_llm_response_try provider_partial (module_init provider_partial) (ascii ''hi'') label_legal) =
     Inr (ascii ''hello'', PyInt 10, PyInt 5, PyInt 0) \<and>
   fst (get_llm_response provider_partial (module_init provider_partial) (ascii ''hi'') label_legal) =
     Inr (ascii ''hello'', PyInt 10, PyInt 5, PyInt 0) \<and>
   (0::int) \<noteq> 10 + 5"
  using partial_try by (simp add: response_of_try)

text \<open>
  C6, amended. When the call succeeds and the usage metadata of the provider holds the
  three counters as integers with \<open>total_tokens = prompt_tokens + completion_tokens\<close>,
  the result carries these three integers, so its total is the sum of the other two.
\<close>

theorem total_is_sum_when_reported:
  assumes "ChatOpenAI x (llm_args s) = None"
    and "map_of (EXPERT_TYPES s) expert_type = Some instruction"
    and "invoke x (llm_args s) [SystemMessage instruction, HumanMessage user_input] = Inr r"
    and "map_of (response_metadata r) (ascii ''token_usage'') = Some (PyDict usage)"
    and "map_of usage (ascii ''prompt_tokens'') = Some (PyInt p)"
    and "map_of usage (ascii ''completion_tokens'') = Some (PyInt c)"
    and "map_of usage (ascii ''total_tokens'') = Some (PyInt (p + c))"
  shows "fst (get_llm_response x s user_input expert_type) =
           Inr (content r, PyInt p, PyInt c, PyInt (p + c))"
proof -
  from assms(4)
  have "dict_get (response_metadata r) (ascii ''token_usage'') (PyDict []) = PyDict usage"
    by (simp add: dict_get_def)
  from success_result [OF assms(1,2,3) this] assms(5,6,7) show ?thesis
    by (simp add: response_of_try dict_get_def)
qed

theorem total_is_sum_when_reported_witness:
  "map_of (response_metadata hello_response) (ascii ''token_usage'') =
     Some (PyDict [(ascii ''prompt_tokens'', PyInt 10), (ascii ''completion_tokens'', PyInt 5),
                   (ascii ''total_tokens'', PyInt 15)]) \<and>
   fst (get_llm_response provider_hello (module_init provider_hello) (ascii ''hi'') label_medical) =
     Inr (ascii ''hello'', PyInt 10, PyInt 5, PyInt (10 + 5))"
proof -
  let ?s = "module_init provider_hello"
  let ?u = "[(ascii ''prompt_tokens'', PyInt 10), (ascii ''completion_tokens'', PyInt 5),
             (ascii ''total_tokens'', PyInt 15)]"
  have r: "map_of (EXPERT_TYPES ?s) label_medical = Some instruction_medical"
    by (simp add: module_init_def)
  have m: "map_of (response_metadata hello_response) (ascii ''token_usage'') = Some (PyDict ?u)"
    by (simp add: hello_response_def)
  have p: "map_of ?u (ascii ''prompt_tokens'') = Some (PyInt 10)" by simp
  have c: "map_of ?u (ascii ''completion_tokens'') = Some (PyInt 5)" by (simp add: ascii_def)
  have t: "map_of ?u (ascii ''total_tokens'') = Some (PyInt (10 + 5))" by (simp add: ascii_def)
  have h: "content hello_response = ascii ''hello''" by (simp add: hello_response_def)
  from total_is_sum_when_reported [OF hello_setup(1) r hello_setup(2) m p c t] m h
  show ?thesis by simp
qed

text \<open>
  C9. For a label that is not a key of the registry, get_llm_response returns the
  failure value: the twelve code points of the literal of line 60 followed by \<open>str\<close> of the \<open>KeyError\<close> of the lookup (of
  the constructor's exception, when the client could not even be constructed), with the
  three counters 0. The provider is never invoked.
\<close>

theorem unknown_label_is_caught:
  assumes "map_of (EXPERT_TYPES s) expert_type = None"
  shows "get_llm_response x s user_input expert_type =
     (Inr ([12456, 12521, 12540, 12364, 30330, 29983, 12375, 12414, 12375, 12383, 58, 32] @
             str_exn x (case ChatOpenAI x (llm_args s) of
                          Some e \<Rightarrow> e | None \<Rightarrow> KeyError expert_type),
           PyInt 0, PyInt 0, PyInt 0),
      s\<lparr>calls := calls s @ [Construct (llm_args s)]\<rparr>)"
proof (cases "ChatOpenAI x (llm_args s)")
  case None
  from try_unknown_label [OF None assms] None show ?thesis
    by (simp add: response_of_try external_def error_prefix_def)
next
  case (Some e)
  from try_constructor_raises [OF Some] Some show ?thesis
    by (simp add: response_of_try external_def error_prefix_def)
qed

theorem unknown_label_is_caught_witness:
  "map_of (EXPERT_TYPES (module_init provider_hello)) (ascii ''nobody'') = None \<and>
   fst (get_llm_response provider_hello (module_init provider_hello) (ascii ''hi'') (ascii ''nobody'')) =
     Inr ([12456, 12521, 12540, 12364, 30330, 29983, 12375, 12414, 12375, 12383, 58, 32] @
          [39] @ ascii ''nobody'' @ [39], PyInt 0, PyInt 0, PyInt 0) \<and>
   calls (snd (get_llm_response provider_hello (module_init provider_hello) (ascii ''hi'')
                 (ascii ''nobody''))) =
     [Construct (llm_args (module_init provider_hello))]"
proof -
  let ?s = "module_init provider_hello"
  have n: "map_of (EXPERT_TYPES ?s) (ascii ''nobody'') = None"
    by (simp add: module_init_def ascii_def label_medical_def label_legal_def
        label_finance_def label_it_engineer_def label_marketing_def)
  have r: "py_repr provider_hello (ascii ''nobody'') = [39] @ ascii ''nobody'' @ [39]"
    by (simp add: provider_hello_def repr_str_def repr_char_def Let_def ascii_def)
  have e: "calls ?s = []" by (simp add: module_init_def)
  from unknown_label_is_caught [OF n, of provider_hello "ascii ''hi''"] hello_setup(1) n r e
  show ?thesis by simp
qed

section \<open>The registry\<close>

lemmas label_defs =
  label_medical_def label_legal_def label_finance_def label_it_engineer_def label_marketing_def

lemmas instruction_defs =
  instruction_medical_def instruction_legal_def instruction_finance_def
  instruction_it_engineer_def instruction_marketing_def

lemma registry_keys:
  "map fst (EXPERT_TYPES (module_init x)) =
     [label_medical, label_legal, label_finance, label_it_engineer, label_marketing]"
  by (simp add: module_init_def)

lemma labels_distinct:
  "distinct [label_medical, label_legal, label_finance, label_it_engineer, label_marketing]"
  by (simp add: label_defs)

lemma registry_lookup:
  "dict_getitem (EXPERT_TYPES (module_init x)) label_medical = Inr instruction_medical"
  "dict_getitem (EXPERT_TYPES (module_init x)) label_legal = Inr instruction_legal"
  "dict_getitem (EXPERT_TYPES (module_init x)) label_finance = Inr instruction_finance"
  "dict_getitem (EXPERT_TYPES (module_init x)) label_it_engineer = Inr instruction_it_engineer"
  "dict_getitem (EXPERT_TYPES (module_init x)) label_marketing = Inr instruction_marketing"
  by (simp_all add: module_init_def dict_getitem_def label_defs)

lemma instructions_nonempty:
  "instruction_medical \<noteq> []" "instruction_legal \<noteq> []" "instruction_finance \<noteq> []"
  "instruction_it_engineer \<noteq> []" "instruction_marketing \<noteq> []"
  by (simp_all add: instruction_defs)

text \<open>
  C7. The registry built by the module body has exactly five labels, pairwise distinct,
  and the lookup of each of them returns a non-empty instruction.
\<close>

theorem registry_five_personas:
  "map fst (EXPERT_TYPES (module_init x)) =
     [label_medical, label_legal, label_finance, label_it_engineer, label_marketing] \<and>
   distinct (map fst (EXPERT_TYPES (module_init x))) \<and>
   card (dom (map_of (EXPERT_TYPES (module_init x)))) = 5 \<and>
   (\<forall>l \<in> dom (map_of (EXPERT_TYPES (module_init x))).
      \<exists>i. dict_getitem (EXPERT_TYPES (module_init x)) l = Inr i \<and> i \<noteq> [])"
proof (intro conjI ballI)
  show k: "map fst (EXPERT_TYPES (module_init x)) =
     [label_medical, label_legal, label_finance, label_it_engineer, label_marketing]"
    by (rule registry_keys)
  show d: "distinct (map fst (EXPERT_TYPES (module_init x)))"
    by (simp only: k labels_distinct)
  have "dom (map_of (EXPERT_TYPES (module_init x))) = set (map fst (EXPERT_TYPES (module_init x)))"
    by (simp add: dom_map_of_conv_image_fst)
  then have "card (dom (map_of (EXPERT_TYPES (module_init x)))) =
      length (map fst (EXPERT_TYPES (module_init x)))"
    using distinct_card [OF d] by simp
  then show "card (dom (map_of (EXPERT_TYPES (module_init x)))) = 5"
    by (simp add: k)
next
  fix l assume "l \<in> dom (map_of (EXPERT_TYPES (module_init x)))"
  then have "l \<in> set (map fst (EXPERT_TYPES (module_init x)))"
    by (simp add: dom_map_of_conv_image_fst)
  then have "l = label_medical \<or> l = label_legal \<or> l = label_finance \<or>
      l = label_it_engineer \<or> l = label_marketing"
    by (simp add: registry_keys)
  then show "\<exists>i. dict_getitem (EXPERT_TYPES (module_init x)) l = Inr i \<and> i \<noteq> []"
    using registry_lookup [of x] instructions_nonempty by auto
qed

theorem registry_five_personas_witness:
  "label_marketing \<in> dom (map_of (EXPERT_TYPES (module_init provider_hello))) \<and>
   dict_getitem (EXPERT_TYPES (module_init provider_hello)) label_marketing =
     Inr instruction_marketing \<and>
   length instruction_marketing = 57"
proof -
  have m: "label_marketing \<in> dom (map_of (EXPERT_TYPES (module_init provider_hello)))"
    by (simp add: dom_map_of_conv_image_fst module_init_def)
  from registry_five_personas [of provider_hello] m
  have "\<exists>i. dict_getitem (EXPERT_TYPES (module_init provider_hello)) label_marketing = Inr i \<and> i \<noteq> []"
    by blast
  with m registry_lookup(5) [of provider_hello] show ?thesis
    by (simp add: instruction_marketing_def)
qed

section \<open>Properties of main\<close>

lemma dropWhile_all: "(\<forall>c \<in> set (dropWhile P s). P c) \<longleftrightarrow> (\<forall>c \<in> set s. P c)"
  by (induction s) auto

lemma strip_empty_iff: "strip s = [] \<longleftrightarrow> (\<forall>c \<in> set s. isspace c)"
  by (simp add: strip_def dropWhile_eq_Nil_conv dropWhile_all)

lemma rendered_append: "page s' = page s @ evs \<Longrightarrow> rendered s s' = evs"
  by (simp add: rendered_def)

text \<open>The run of the script when the button is not clicked: lines 66-111.\<close>

lemma main_unclicked:
  assumes "map_of (EXPERT_TYPES s) (radio_value u) = Some i"
  shows "fst (main x (u\<lparr>button_value := False\<rparr>) s) = Inr ()"
    and "calls (snd (main x (u\<lparr>button_value := False\<rparr>) s)) = calls s"
    and "openai_api_key (snd (main x (u\<lparr>button_value := False\<rparr>) s)) = openai_api_key s"
    and "EXPERT_TYPES (snd (main x (u\<lparr>button_value := False\<rparr>) s)) = EXPERT_TYPES s"
    and "page (snd (main x (u\<lparr>button_value := False\<rparr>) s)) =
          page s @
          [SetPageConfig page_title_text page_icon_text (ascii ''wide''),
           Title title_text,
           Markdown overview_text,
           SidebarHeader sidebar_header_text,
           SidebarRadio radio_label (map fst (EXPERT_TYPES s)),
           SidebarInfo (selected_prefix @ radio_value u),
           SidebarWrite i,
           Subheader (subheader_prefix @ radio_value u @ subheader_suffix),
           TextArea text_area_label 150 text_area_placeholder,
           Button button_label (ascii ''primary'')]"
  using assms by (simp_all add: main_def page_head_def Let_def st_def dict_getitem_def)

lemma main_clicked:
  assumes "map_of (EXPERT_TYPES s) (radio_value u) = Some i" and "button_value u"
  shows "main x u s =
     submit x (text_area_value u) (radio_value u) (snd (main x (u\<lparr>button_value := False\<rparr>) s))"
  using assms by (simp add: main_def page_head_def Let_def st_def dict_getitem_def)

lemma unclicked_no_error:
  assumes "map_of (EXPERT_TYPES s) (radio_value u) = Some i"
  shows "Error t \<notin> set (rendered s (snd (main x (u\<lparr>button_value := False\<rparr>) s)))"
    and "Warning t \<notin> set (rendered s (snd (main x (u\<lparr>button_value := False\<rparr>) s)))"
  by (simp_all add: rendered_append [OF main_unclicked(5) [OF assms]])

lemma rendered_st:
  assumes "page s' = page s @ evs"
  shows "rendered s (st ev s') = rendered s s' @ [ev]"
  using assms by (simp add: rendered_def st_def)

lemma get_llm_response_logged:
  "calls (snd (get_llm_response x s u l)) \<noteq> calls s"
proof -
  have "\<exists>cs. calls (snd (get_llm_response_try x s u l)) = calls s @ Construct (llm_args s) # cs"
    by (simp add: get_llm_response_try_def Let_def external_def split: option.splits sum.splits)
  then show ?thesis by (auto simp: snd_response)
qed

lemma main_empty_input:
  assumes "button_value u"
    and "map_of (EXPERT_TYPES s) (radio_value u) = Some i"
    and "strip (text_area_value u) = []"
  shows "main x u s =
     (Inr (), st (Warning warning_text) (snd (main x (u\<lparr>button_value := False\<rparr>) s)))"
  using assms(3) by (simp add: main_clicked [OF assms(2,1)] submit_def)

lemma main_no_credential:
  assumes "button_value u"
    and "map_of (EXPERT_TYPES s) (radio_value u) = Some i"
    and "strip (text_area_value u) \<noteq> []"
    and "\<not> truthy (openai_api_key s)"
  shows "main x u s =
     (Inr (), st (Error error_text) (snd (main x (u\<lparr>button_value := False\<rparr>) s)))"
  using assms(3,4)
  by (simp add: main_clicked [OF assms(2,1)] submit_def main_unclicked(3) [OF assms(2)])

text \<open>
  C4. When the button is clicked and the text area holds only whitespace (or nothing),
  the run ends normally, its page is the page of a run without a click followed by the
  warning, and the log of outbound calls is unchanged: get_llm_response, which always
  adds to that log, was not called.
\<close>

theorem empty_input_warns:
  assumes "button_value u"
    and "map_of (EXPERT_TYPES s) (radio_value u) = Some instruction"
    and "\<forall>c \<in> set (text_area_value u). isspace c"
  shows "fst (main x u s) = Inr () \<and>
         calls (snd (main x u s)) = calls s \<and>
         rendered s (snd (main x u s)) =
           rendered s (snd (main x (u\<lparr>button_value := False\<rparr>) s)) @ [Warning warning_text] \<and>
         (\<forall>s' a b. calls (snd (get_llm_response x s' a b)) \<noteq> calls s')"
proof -
  let ?s6 = "snd (main x (u\<lparr>button_value := False\<rparr>) s)"
  from assms(3) have "strip (text_area_value u) = []" by (simp add: strip_empty_iff)
  then have m: "main x u s = (Inr (), st (Warning warning_text) ?s6)"
    by (rule main_empty_input [OF assms(1,2)])
  have "calls (snd (main x u s)) = calls s"
    by (simp add: m st_def main_unclicked(2) [OF assms(2)])
  moreover have "rendered s (snd (main x u s)) = rendered s ?s6 @ [Warning warning_text]"
    by (simp add: m rendered_st [OF main_unclicked(5) [OF assms(2)]])
  ultimately show ?thesis by (simp add: m get_llm_response_logged)
qed

text \<open>Three whitespace characters (space, ideographic space, newline) sent to the IT engineer.\<close>

theorem empty_input_warns_witness:
  "strip [32, 12288, 10] = [] \<and>
   fst (main provider_hello
         \<lparr>radio_value = label_it_engineer, text_area_value = [32, 12288, 10], button_value = True\<rparr>
         (module_init provider_hello)) = Inr () \<and>
   calls (snd (main provider_hello
         \<lparr>radio_value = label_it_engineer, text_area_value = [32, 12288, 10], button_value = True\<rparr>
         (module_init provider_hello))) = [] \<and>
   last (rendered (module_init provider_hello) (snd (main provider_hello
         \<lparr>radio_value = label_it_engineer, text_area_value = [32, 12288, 10], button_value = True\<rparr>
         (module_init provider_hello)))) = Warning warning_text"
proof -
  let ?s = "module_init provider_hello"
  let ?u = "\<lparr>radio_value = label_it_engineer, text_area_value = [32, 12288, 10],
             button_value = True\<rparr>"
  have b: "button_value ?u" by simp
  have r: "map_of (EXPERT_TYPES ?s) (radio_value ?u) = Some instruction_it_engineer"
    by (simp add: module_init_def label_defs)
  have w: "\<forall>c \<in> set (text_area_value ?u). isspace c" by (simp add: isspace_def)
  have e: "calls ?s = []" by (simp add: module_init_def)
  from w have "strip [32, 12288, 10] = []" by (simp add: strip_empty_iff)
  with empty_input_warns [OF b r w, of provider_hello] e show ?thesis by simp
qed

text \<open>
  C5 as stated fails: with no credential and an empty text area the run shows the warning
  of the first branch, and the error about the credential is not on the page.
\<close>

theorem no_credential_error_counterexample:
  "openai_api_key (module_init provider_no_key) = None \<and>
   strip [] = [] \<and>
   last (rendered (module_init provider_no_key) (snd (main provider_no_key
         \<lparr>radio_value = label_medical, text_area_value = [], button_value = True\<rparr>
         (module_init provider_no_key)))) = Warning warning_text \<and>
   Error error_text \<notin> set (rendered (module_init provider_no_key) (snd (main provider_no_key
         \<lparr>radio_value = label_medical, text_area_value = [], button_value = True\<rparr>
         (module_init provider_no_key))))"
proof -
  let ?s = "module_init provider_no_key"
  let ?u = "\<lparr>radio_value = label_medical, text_area_value = [], button_value = True\<rparr>"
  let ?s6 = "snd (main provider_no_key (?u\<lparr>button_value := False\<rparr>) ?s)"
  have k: "openai_api_key ?s = None"
    by (simp add: module_init_def provider_no_key_def env_empty_def)
  have b: "button_value ?u" by simp
  have r: "map_of (EXPERT_TYPES ?s) (radio_value ?u) = Some instruction_medical"
    by (simp add: module_init_def)
  have t: "strip (text_area_value ?u) = []" by (simp add: strip_def)
  have m: "main provider_no_key ?u ?s = (Inr (), st (Warning warning_text) ?s6)"
    by (rule main_empty_input [OF b r t])
  have p: "rendered ?s (snd (main provider_no_key ?u ?s)) = rendered ?s ?s6 @ [Warning warning_text]"
    by (simp only: m snd_conv rendered_st [OF main_unclicked(5) [OF r]])
  have "Error error_text \<notin> set (rendered ?s ?s6)" by (rule unclicked_no_error(1) [OF r])
  with p k show ?thesis by (simp add: strip_def)
qed

text \<open>
  C5, amended. When the button is clicked, the text area holds something besides
  whitespace and no credential is configured (\<open>None\<close> or the empty string), the run ends
  normally, its page is the page of a run without a click followed by the error about
  the credential, and the log of outbound calls is unchanged: get_llm_response was not
  called.
\<close>

theorem no_credential_blocks:
  assumes "button_value u"
    and "map_of (EXPERT_TYPES s) (radio_value u) = Some instruction"
    and "strip (text_area_value u) \<noteq> []"
    and "\<not> truthy (openai_api_key s)"
  shows "fst (main x u s) = Inr () \<and>
         calls (snd (main x u s)) = calls s \<and>
         rendered s (snd (main x u s)) =
           rendered s (snd (main x (u\<lparr>button_value := False\<rparr>) s)) @ [Error error_text] \<and>
         (\<forall>s' a b. calls (snd (get_llm_response x s' a b)) \<noteq> calls s')"
proof -
  let ?s6 = "snd (main x (u\<lparr>button_value := False\<rparr>) s)"
  have m: "main x u s = (Inr (), st (Error error_text) ?s6)"
    by (rule main_no_credential [OF assms])
  have "calls (snd (main x u s)) = calls s"
    by (simp add: m st_def main_unclicked(2) [OF assms(2)])
  moreover have "rendered s (snd (main x u s)) = rendered s ?s6 @ [Error error_text]"
    by (simp add: m rendered_st [OF main_unclicked(5) [OF assms(2)]])
  ultimately show ?thesis by (simp add: m get_llm_response_logged)
qed

theorem no_credential_blocks_witness:
  "openai_api_key (module_init provider_no_key) = None \<and>
   strip (ascii ''hi '') = ascii ''hi'' \<and>
   fst (main provider_no_key
         \<lparr>radio_value = label_finance, text_area_value = ascii ''hi '', button_value = True\<rparr>
         (module_init provider_no_key)) = Inr () \<and>
   calls (snd (main provider_no_key
         \<lparr>radio_value = label_finance, text_area_value = ascii ''hi '', button_value = True\<rparr>
         (module_init provider_no_key))) = [] \<and>
   last (rendered (module_init provider_no_key) (snd (main provider_no_key
         \<lparr>radio_value = label_finance, text_area_value = ascii ''hi '', button_value = True\<rparr>
         (module_init provider_no_key)))) = Error error_text"
proof -
  let ?s = "module_init provider_no_key"
  let ?u = "\<lparr>radio_value = label_finance, text_area_value = ascii ''hi '',
             button_value = True\<rparr>"
  have k: "openai_api_key ?s = None"
    by (simp add: module_init_def provider_no_key_def env_empty_def)
  have b: "button_value ?u" by simp
  have r: "map_of (EXPERT_TYPES ?s) (radio_value ?u) = Some instruction_finance"
    by (simp add: module_init_def label_defs)
  have t: "strip (ascii ''hi '') = ascii ''hi''" by (simp add: strip_def ascii_def isspace_def)
  then have t': "strip (text_area_value ?u) \<noteq> []" by (simp add: ascii_def)
  from k have n: "\<not> truthy (openai_api_key ?s)" by simp
  have e: "calls ?s = []" by (simp add: module_init_def)
  from no_credential_blocks [OF b r t' n, of provider_no_key] k t e show ?thesis by simp
qed

text \<open>
  C10. When the button is clicked, the text area holds only whitespace and no credential
  is configured, the page is the page of a run without a click followed by the warning;
  the error about the credential is not among the events of the run, and the same page
  is rendered whatever the credential is: the credential is not looked at.
\<close>

theorem empty_input_precedes_credential:
  assumes "button_value u"
    and "map_of (EXPERT_TYPES s) (radio_value u) = Some instruction"
    and "\<forall>c \<in> set (text_area_value u). isspace c"
    and "\<not> truthy (openai_api_key s)"
  shows "rendered s (snd (main x u s)) =
           rendered s (snd (main x (u\<lparr>button_value := False\<rparr>) s)) @ [Warning warning_text] \<and>
         Error error_text \<notin> set (rendered s (snd (main x u s))) \<and>
         rendered (s\<lparr>openai_api_key := k\<rparr>) (snd (main x u (s\<lparr>openai_api_key := k\<rparr>))) =
           rendered s (snd (main x u s))"
proof -
  let ?s' = "s\<lparr>openai_api_key := k\<rparr>"
  let ?v = "u\<lparr>button_value := False\<rparr>"
  from assms(3) have t: "strip (text_area_value u) = []" by (simp add: strip_empty_iff)
  from assms(2) have r': "map_of (EXPERT_TYPES ?s') (radio_value u) = Some instruction" by simp
  have p: "rendered s (snd (main x u s)) = rendered s (snd (main x ?v s)) @ [Warning warning_text]"
    by (simp add: main_empty_input [OF assms(1,2) t] rendered_st [OF main_unclicked(5) [OF assms(2)]])
  have p': "rendered ?s' (snd (main x u ?s')) =
      rendered ?s' (snd (main x ?v ?s')) @ [Warning warning_text]"
    by (simp only: main_empty_input [OF assms(1) r' t] snd_conv
        rendered_st [OF main_unclicked(5) [OF r']])
  have q: "rendered ?s' (snd (main x ?v ?s')) = rendered s (snd (main x ?v s))"
    by (simp add: rendered_append [OF main_unclicked(5) [OF r']]
        rendered_append [OF main_unclicked(5) [OF assms(2)]])
  have "Error error_text \<notin> set (rendered s (snd (main x ?v s)))"
    by (rule unclicked_no_error(1) [OF assms(2)])
  with p p' q show ?thesis by simp
qed

text \<open>A blank line sent with an empty credential string; a credential would not change the page.\<close>

theorem empty_input_precedes_credential_witness:
  "strip [32, 10] = [] \<and>
   \<not> truthy (openai_api_key ((module_init provider_no_key)\<lparr>openai_api_key := Some []\<rparr>)) \<and>
   last (rendered ((module_init provider_no_key)\<lparr>openai_api_key := Some []\<rparr>)
          (snd (main provider_no_key
            \<lparr>radio_value = label_legal, text_area_value = [32, 10], button_value = True\<rparr>
            ((module_init provider_no_key)\<lparr>openai_api_key := Some []\<rparr>)))) = Warning warning_text \<and>
   Error error_text \<notin> set (rendered ((module_init provider_no_key)\<lparr>openai_api_key := Some []\<rparr>)
          (snd (main provider_no_key
            \<lparr>radio_value = label_legal, text_area_value = [32, 10], button_value = True\<rparr>
            ((module_init provider_no_key)\<lparr>openai_api_key := Some []\<rparr>))))"
proof -
  let ?s = "(module_init provider_no_key)\<lparr>openai_api_key := Some []\<rparr>"
  let ?u = "\<lparr>radio_value = label_legal, text_area_value = [32, 10], button_value = True\<rparr>"
  have b: "button_value ?u" by simp
  have r: "map_of (EXPERT_TYPES ?s) (radio_value ?u) = Some instruction_legal"
    by (simp add: module_init_def label_defs)
  have w: "\<forall>c \<in> set (text_area_value ?u). isspace c" by (simp add: isspace_def)
  have n: "\<not> truthy (openai_api_key ?s)" by simp
  from w have t: "strip [32, 10] = []" by (simp add: strip_empty_iff)
  note run = empty_input_precedes_credential [OF b r w n, where x = provider_no_key and k = None]
  from run have l: "last (rendered ?s (snd (main provider_no_key ?u ?s))) = Warning warning_text"
    by simp
  from run have e: "Error error_text \<notin> set (rendered ?s (snd (main provider_no_key ?u ?s)))"
    by (rule conjunct1 [OF conjunct2])
  from t n l e show ?thesis by (intro conjI)
qed

section \<open>The registry is never modified\<close>

lemma external_frame: "EXPERT_TYPES (external c s) = EXPERT_TYPES s"
  by (simp add: external_def)

lemma st_frame: "EXPERT_TYPES (st ev s) = EXPERT_TYPES s"
  by (simp add: st_def)

lemma get_llm_response_frame:
  "EXPERT_TYPES (snd (get_llm_response x s u l)) = EXPERT_TYPES s"
  by (simp add: snd_response get_llm_response_try_def Let_def external_frame
      split: option.splits sum.splits)

lemma show_usage_frame:
  "EXPERT_TYPES (snd (show_usage l p c t s)) = EXPERT_TYPES s"
  by (simp add: show_usage_def Let_def st_frame split: sum.splits)

lemma respond_frame:
  "EXPERT_TYPES (snd (respond x a l s)) = EXPERT_TYPES s"
proof -
  obtain o' s2 where g: "get_llm_response x (st (Spinner spinner_text) s) a l = (o', s2)"
    by (cases "get_llm_response x (st (Spinner spinner_text) s) a l")
  from get_llm_response_frame [of x "st (Spinner spinner_text) s" a l] g
  have e: "EXPERT_TYPES s2 = EXPERT_TYPES s" by (simp add: st_frame)
  show ?thesis
  proof (cases o')
    case (Inl err)
    with g e show ?thesis by (simp add: respond_def Let_def)
  next
    case (Inr res)
    obtain reply p c t where "res = (reply, p, c, t)" by (cases res)
    with Inr g e show ?thesis by (simp add: respond_def Let_def show_usage_frame st_frame)
  qed
qed

lemma submit_frame:
  "EXPERT_TYPES (snd (submit x a l s)) = EXPERT_TYPES s"
  by (simp add: submit_def respond_frame st_frame)

lemma main_frame: "EXPERT_TYPES (snd (main x u s)) = EXPERT_TYPES s"
proof (cases "map_of (EXPERT_TYPES s) (radio_value u)")
  case None
  then show ?thesis
    by (simp add: main_def page_head_def Let_def st_def dict_getitem_def)
next
  case (Some i)
  show ?thesis
  proof (cases "button_value u")
    case True
    then show ?thesis
      by (simp add: main_clicked [OF Some] submit_frame main_unclicked(4) [OF Some])
  next
    case False
    then have "u\<lparr>button_value := False\<rparr> = u" by simp
    with main_unclicked(4) [OF Some, of x] show ?thesis by simp
  qed
qed

text \<open>
  C8. The registry is set by the module body, to a value that does not depend on the
  environment, and neither get_llm_response nor main changes it, whatever the inputs,
  the provider's behaviour and the outcome.
\<close>

theorem registry_is_never_modified:
  "EXPERT_TYPES (module_init x) = EXPERT_TYPES (module_init x') \<and>
   EXPERT_TYPES (snd (get_llm_response x s user_input expert_type)) = EXPERT_TYPES s \<and>
   EXPERT_TYPES (snd (main x u s)) = EXPERT_TYPES s"
  by (simp add: get_llm_response_frame main_frame module_init_def)

theorem registry_is_never_modified_witness:
  "EXPERT_TYPES (snd (main provider_hello
      \<lparr>radio_value = label_legal, text_area_value = ascii ''hi'', button_value = True\<rparr>
      (module_init provider_hello))) =
     [(label_medical, instruction_medical),
      (label_legal, instruction_legal),
      (label_finance, instruction_finance),
      (label_it_engineer, instruction_it_engineer),
      (label_marketing, instruction_marketing)]"
  using registry_is_never_modified [of provider_hello provider_hello "module_init provider_hello"
      "[]" "[]" "\<lparr>radio_value = label_legal, text_area_value = ascii ''hi'', button_value = True\<rparr>"]
  by (simp add: module_init_def)

section \<open>A whole run, evaluated\<close>

lemma format_examples:
  "format_comma (PyInt 10) = Inr (ascii ''10'')"
  "format_comma (PyInt 1234567) = Inr (ascii ''1,234,567'')"
  "format_comma (PyInt (- 1000)) = Inr (ascii ''-1,000'')"
  "format_comma PyNone = Inl (TypeError (ascii ''unsupported format string passed to NoneType.__format__''))"
  by (simp_all add: format_int_def digits.simps ascii_def)

lemma hello_response_result:
  "fst (get_llm_response provider_hello s (ascii ''hi'') label_legal) =
     (case map_of (EXPERT_TYPES s) label_legal of
        Some i \<Rightarrow> Inr (ascii ''hello'', PyInt 10, PyInt 5, PyInt 15)
      | None \<Rightarrow> Inr (error_prefix @ repr_str label_legal, PyInt 0, PyInt 0, PyInt 0))"
  by (simp add: response_of_try get_llm_response_try_def Let_def dict_getitem_def external_def
      provider_hello_def always_constructs_def answers_def hello_response_def read_usage_def
      dict_get_def ascii_def split: option.splits)

lemma get_llm_response_page: "page (snd (get_llm_response x s u l)) = page s"
  by (simp add: snd_response get_llm_response_try_def Let_def external_def
      split: option.splits sum.splits)

text \<open>What the page shows after a result with integer counters.\<close>

lemma respond_page:
  assumes "fst (get_llm_response x (st (Spinner spinner_text) s) a l) =
             Inr (reply, PyInt p, PyInt c, PyInt t)"
  shows "respond x a l s =
     (Inr (),
      (snd (get_llm_response x (st (Spinner spinner_text) s) a l))
        \<lparr>page := page s @
          [Spinner spinner_text,
           Success success_text,
           Markdown answer_heading,
           Markdown reply,
           Markdown usage_heading,
           Columns 3,
           Metric 1 metric_label_prompt (format_int p),
           Metric 2 metric_label_completion (format_int c),
           Metric 3 metric_label_total (format_int t),
           Info (info_prefix @ l @ info_suffix)]\<rparr>)"
proof -
  obtain s2 where g: "get_llm_response x (st (Spinner spinner_text) s) a l =
      (Inr (reply, PyInt p, PyInt c, PyInt t), s2)"
    using assms by (cases "get_llm_response x (st (Spinner spinner_text) s) a l") simp
  from get_llm_response_page [of x "st (Spinner spinner_text) s" a l] g
  have "page s2 = page s @ [Spinner spinner_text]" by (simp add: st_def)
  with g show ?thesis
    by (simp add: respond_def Let_def show_usage_def st_def)
qed

text \<open>A whole run: the legal expert is asked \<open>hi\<close> and the provider answers \<open>hello\<close>.\<close>

lemma main_hello_page:
  "rendered (module_init provider_hello)
     (snd (main provider_hello
        \<lparr>radio_value = label_legal, text_area_value = ascii ''hi'', button_value = True\<rparr>
        (module_init provider_hello))) =
     [SetPageConfig page_title_text page_icon_text (ascii ''wide''),
      Title title_text,
      Markdown overview_text,
      SidebarHeader sidebar_header_text,
      SidebarRadio radio_label
        [label_medical, label_legal, label_finance, label_it_engineer, label_marketing],
      SidebarInfo (selected_prefix @ label_legal),
      SidebarWrite instruction_legal,
      Subheader (subheader_prefix @ label_legal @ subheader_suffix),
      TextArea text_area_label 150 text_area_placeholder,
      Button button_label (ascii ''primary''),
      Spinner spinner_text,
      Success success_text,
      Markdown answer_heading,
      Markdown (ascii ''hello''),
      Markdown usage_heading,
      Columns 3,
      Metric 1 metric_label_prompt (ascii ''10''),
      Metric 2 metric_label_completion (ascii ''5''),
      Metric 3 metric_label_total (ascii ''15''),
      Info (info_prefix @ label_legal @ info_suffix)]"
proof -
  let ?s = "module_init provider_hello"
  let ?u = "\<lparr>radio_value = label_legal, text_area_value = ascii ''hi'', button_value = True\<rparr>"
  let ?v = "\<lparr>radio_value = label_legal, text_area_value = ascii ''hi'', button_value = False\<rparr>"
  let ?s6 = "snd (main provider_hello ?v ?s)"
  let ?s7 = "st (Spinner spinner_text) ?s6"
  have r: "map_of (EXPERT_TYPES ?s) (radio_value ?u) = Some instruction_legal"
    by (simp add: registry_init)
  have e0: "page ?s = []" by (simp add: module_init_def)
  have k0: "openai_api_key ?s = Some (ascii ''sk-test'')"
    by (simp add: module_init_def provider_hello_def env_with_key_def)
  have k: "openai_api_key ?s6 = Some (ascii ''sk-test'')"
    using main_unclicked(3) [OF r, of provider_hello] k0 by simp
  have e: "EXPERT_TYPES ?s7 = EXPERT_TYPES ?s"
    by (simp add: st_frame main_frame)
  have p6: "page ?s6 =
     [SetPageConfig page_title_text page_icon_text (ascii ''wide''),
      Title title_text,
      Markdown overview_text,
      SidebarHeader sidebar_header_text,
      SidebarRadio radio_label
        [label_medical, label_legal, label_finance, label_it_engineer, label_marketing],
      SidebarInfo (selected_prefix @ label_legal),
      SidebarWrite instruction_legal,
      Subheader (subheader_prefix @ label_legal @ subheader_suffix),
      TextArea text_area_label 150 text_area_placeholder,
      Button button_label (ascii ''primary'')]"
    using main_unclicked(5) [OF r, of provider_hello] e0 by (simp add: registry_keys)
  have t: "strip (ascii ''hi'') = ascii ''hi''" by (simp add: strip_def ascii_def isspace_def)
  have "main provider_hello ?u ?s = submit provider_hello (ascii ''hi'') label_legal ?s6"
    using main_clicked [OF r, of provider_hello] by simp
  also have "\<dots> = respond provider_hello (ascii ''hi'') label_legal ?s6"
    using k t by (simp add: submit_def ascii_def)
  finally have m: "main provider_hello ?u ?s =
      respond provider_hello (ascii ''hi'') label_legal ?s6" .
  have g: "fst (get_llm_response provider_hello ?s7 (ascii ''hi'') label_legal) =
      Inr (ascii ''hello'', PyInt 10, PyInt 5, PyInt 15)"
    by (simp add: hello_response_result e registry_init)
  have f: "format_int 10 = ascii ''10''" "format_int 5 = ascii ''5''" "format_int 15 = ascii ''15''"
    by (simp_all add: format_int_def digits.simps ascii_def)
  show ?thesis
    by (simp only: m respond_page [OF g] snd_conv f rendered_def)
       (simp add: p6 e0)
qed

section \<open>repr, evaluated\<close>

text \<open>
  The quote changes to the double quote for a key that holds a single quote, and the
  ideographic space U+3000, which is not printable, is written as an escape.
\<close>

lemma ideographic_space_not_printable: "\<not> isprintable 12288"
  by (simp add: isprintable_def nonprintable_def)

lemma repr_str_examples:
  "repr_str (ascii ''nobody'') = [39] @ ascii ''nobody'' @ [39]"
  "repr_str [97, 39, 98] = [34, 97, 39, 98, 34]"
  "repr_str [97, 39, 34, 98] = [39, 97, 92, 39, 34, 98, 39]"
  "repr_str [97, 10, 92] = [39, 97, 92, 110, 92, 92, 39]"
  "repr_str [12288] = [39, 92, 117, 51, 48, 48, 48, 39]"
  using ideographic_space_not_printable
  by (simp_all add: repr_str_def repr_char_def hex2_def hex4_def hex_digit_def Let_def ascii_def)

end
